theory Spec2Isabelle
  imports Complex_Main "HOL-Library.AList"
begin

section \<open>Python values: exceptions, dictionaries, objects\<close>

text \<open>
  Every \<^verbatim>\<open>raise\<close> of the source, and every failure of a dictionary or tensor
  operation it relies on, is a value of \<open>error\<close>; a computation that can fail returns
  \<open>error + 'a\<close> with \<open>Inl\<close> for the exception.
\<close>

datatype error =
    KeyError string
  | KeyErrorList "string list"
  | ValueError string
  | RuntimeError string
  | IndexError string
  | AttributeError string
  | AssertionError string
  | TypeError string

definition bindE :: "error + 'a \<Rightarrow> ('a \<Rightarrow> error + 'b) \<Rightarrow> error + 'b" where
  "bindE m f = (case m of Inl e \<Rightarrow> Inl e | Inr x \<Rightarrow> f x)"

fun mapE :: "('a \<Rightarrow> error + 'b) \<Rightarrow> 'a list \<Rightarrow> error + 'b list" where
  "mapE f [] = Inr []"
| "mapE f (x # xs) =
     (case f x of Inl e \<Rightarrow> Inl e
      | Inr y \<Rightarrow> (case mapE f xs of Inl e \<Rightarrow> Inl e | Inr ys \<Rightarrow> Inr (y # ys)))"

text \<open>
  A Python \<^verbatim>\<open>dict\<close> keeps its keys in insertion order, which
  \<^verbatim>\<open>ClimateData._extract_prefix_levels\<close> iterates, so a dictionary is an
  association list with distinct keys. \<open>d[k]\<close> is \<open>getitem\<close>, \<open>d[k] = v\<close> is
  \<open>AList.update\<close> (an existing key keeps its place, a new one goes last), and
  \<^verbatim>\<open>{**a, **b}\<close> is \<open>dict_merge\<close>. Two dictionaries are equal in Python when
  they hold the same items in any order, that is when their \<open>map_of\<close> agree.
\<close>

type_synonym 'v dict = "(string \<times> 'v) list"

definition keys :: "'v dict \<Rightarrow> string list" where
  "keys d = map fst d"

definition getitem :: "'v dict \<Rightarrow> string \<Rightarrow> error + 'v" where
  "getitem d k = (case map_of d k of None \<Rightarrow> Inl (KeyError k) | Some v \<Rightarrow> Inr v)"

definition dict_merge :: "'v dict \<Rightarrow> 'v dict \<Rightarrow> 'v dict" where
  "dict_merge a b = foldl (\<lambda>d kv. AList.update (fst kv) (snd kv) d) a b"

text \<open>\<^verbatim>\<open>{k: v for ...}\<close>: the items are stored one after the other.\<close>

definition dict_of_items :: "(string \<times> 'v) list \<Rightarrow> 'v dict" where
  "dict_of_items kvs = dict_merge [] kvs"

section \<open>Tensors\<close>

text \<open>
  A tensor is the nested list of its entries: \<open>Sc x\<close> is a 0-dimensional tensor and
  \<open>Ten ts\<close> holds the slices along the first dimension. Only tensors without a
  dimension of size zero are represented (\<open>wf\<close>): every slice list is non-empty and all
  slices have one shape. The element type is a parameter; device and dtype are not
  modelled, so \<^verbatim>\<open>.to(device, dtype=...)\<close> is the identity.
\<close>

datatype 'a tensor = Sc 'a | Ten "'a tensor list"

fun children :: "'a tensor \<Rightarrow> 'a tensor list" where
  "children (Sc x) = []"
| "children (Ten ts) = ts"

fun shape :: "'a tensor \<Rightarrow> nat list" where
  "shape (Sc x) = []"
| "shape (Ten []) = [0]"
| "shape (Ten (t # ts)) = Suc (length ts) # shape t"

fun wf :: "'a tensor \<Rightarrow> bool" where
  "wf (Sc x) = True"
| "wf (Ten ts) = (ts \<noteq> [] \<and> list_all (\<lambda>t. wf t \<and> shape t = shape (hd ts)) ts)"

definition ndim :: "'a tensor \<Rightarrow> nat" where
  "ndim t = length (shape t)"

text \<open>
  torch wraps a negative dimension once: for \<open>n\<close> admissible positions the valid range
  is \<open>-n \<le> dim < n\<close>, and \<open>dim < 0\<close> stands for \<open>dim + n\<close>.
\<close>

definition wrap_dim :: "int \<Rightarrow> nat \<Rightarrow> error + nat" where
  "wrap_dim d n =
     (if - int n \<le> d \<and> d < int n then Inr (nat (if d < 0 then d + int n else d))
      else Inl (IndexError ''Dimension out of range''))"

text \<open>\<^verbatim>\<open>tensor.select(dim, index)\<close> on an already wrapped dimension.\<close>

fun select_nat :: "nat \<Rightarrow> nat \<Rightarrow> 'a tensor \<Rightarrow> error + 'a tensor" where
  "select_nat d i (Sc x) = Inl (IndexError ''select() cannot be applied to a 0-dim tensor'')"
| "select_nat 0 i (Ten ts) =
     (if i < length ts then Inr (ts ! i) else Inl (IndexError ''select(): index out of range''))"
| "select_nat (Suc d) i (Ten ts) =
     (case mapE (select_nat d i) ts of Inl e \<Rightarrow> Inl e | Inr us \<Rightarrow> Inr (Ten us))"

definition select :: "'a tensor \<Rightarrow> int \<Rightarrow> nat \<Rightarrow> error + 'a tensor" where
  "select t ax i =
     (if ndim t = 0 then Inl (IndexError ''select() cannot be applied to a 0-dim tensor'')
      else bindE (wrap_dim ax (ndim t)) (\<lambda>d. select_nat d i t))"

text \<open>
  \<^verbatim>\<open>torch.stack(tensors, dim)\<close>: the list must be non-empty, \<open>dim\<close> must lie within
  the rank of the result, and all tensors must have one shape (a nested list that is
  not \<open>wf\<close> is no tensor and is rejected with them). Position 0 lists the tensors;
  a deeper position stacks the corresponding slices.
\<close>

fun stack_nat :: "nat \<Rightarrow> 'a tensor list \<Rightarrow> 'a tensor" where
  "stack_nat 0 ts = Ten ts"
| "stack_nat (Suc d) ts =
     Ten (map (\<lambda>j. stack_nat d (map (\<lambda>t. children t ! j) ts)) [0..<length (children (hd ts))])"

definition stack :: "'a tensor list \<Rightarrow> int \<Rightarrow> error + 'a tensor" where
  "stack ts ax =
     (if ts = [] then Inl (RuntimeError ''stack expects a non-empty TensorList'')
      else bindE (wrap_dim ax (Suc (ndim (hd ts)))) (\<lambda>d.
        if list_all (\<lambda>t. wf t \<and> shape t = shape (hd ts)) ts then Inr (stack_nat d ts)
        else Inl (RuntimeError ''stack expects each tensor to be equal size'')))"

section \<open>The variable packer (utilities/packer.py)\<close>

text \<open>
  A \<^verbatim>\<open>Packer\<close> instance is the dictionary of the attributes that
  \<^verbatim>\<open>__init__\<close> has assigned; reading an attribute that was never assigned raises
  \<^verbatim>\<open>AttributeError\<close> (the class defines methods only, no data attribute).
\<close>

datatype pyval = PyInt int | PyNames "string list"

type_synonym pyobject = "string \<rightharpoonup> pyval"

definition getattr :: "pyobject \<Rightarrow> string \<Rightarrow> error + pyval" where
  "getattr self a = (case self a of None \<Rightarrow> Inl (AttributeError a) | Some v \<Rightarrow> Inr v)"

definition as_int :: "pyval \<Rightarrow> error + int" where
  "as_int v = (case v of PyInt i \<Rightarrow> Inr i | PyNames ns \<Rightarrow> Inl (TypeError ''int expected''))"

definition as_names :: "pyval \<Rightarrow> error + string list" where
  "as_names v = (case v of PyNames ns \<Rightarrow> Inr ns | PyInt i \<Rightarrow> Inl (TypeError ''list expected''))"

definition Packer_init ::
  "string list \<Rightarrow> int option \<Rightarrow> int option \<Rightarrow> int option \<Rightarrow> error + pyobject" where
  "Packer_init names axis axis_pack axis_unpack =
     (let self = Map.empty(''names'' \<mapsto> PyNames names) in
      case axis of
        Some a \<Rightarrow>
          if axis_pack \<noteq> None then Inl (AssertionError ''Cannot specify both axis and axis_pack'')
          else if axis_unpack \<noteq> None then
            Inl (AssertionError ''Cannot specify both axis and axis_unpack'')
          else Inr (self(''axis_pack'' \<mapsto> PyInt a, ''axis_unpack'' \<mapsto> PyInt a))
      | None \<Rightarrow>
          (case axis_pack of
             None \<Rightarrow> Inl (AssertionError ''Must specify either axis or axis_pack'')
           | Some ap \<Rightarrow>
               (case axis_unpack of
                  None \<Rightarrow> Inl (AssertionError ''Must specify either axis or axis_unpack'')
                | Some au \<Rightarrow>
                    Inr (self(''axis_pack'' \<mapsto> PyInt ap, ''axis_unpack'' \<mapsto> PyInt au)))))"

text \<open>\<^verbatim>\<open>_pack\<close>: \<^verbatim>\<open>torch.stack([tensors[n] for n in names], dim=axis)\<close>.\<close>

definition pack_names :: "'a tensor dict \<Rightarrow> string list \<Rightarrow> int \<Rightarrow> error + 'a tensor" where
  "pack_names tensors names axis =
     bindE (mapE (getitem tensors) names) (\<lambda>ts. stack ts axis)"

text \<open>
  \<^verbatim>\<open>_unpack\<close>:
  \<^verbatim>\<open>{n: tensor.select(axis, index=i) for i, n in enumerate(names)}\<close>.
\<close>

definition unpack_names :: "'a tensor \<Rightarrow> string list \<Rightarrow> int \<Rightarrow> error + 'a tensor dict" where
  "unpack_names tensor names axis =
     bindE (mapE (\<lambda>(i, n). bindE (select tensor axis i) (\<lambda>t. Inr (n, t))) (enumerate 0 names))
       (\<lambda>kvs. Inr (dict_of_items kvs))"

definition pack :: "pyobject \<Rightarrow> 'a tensor dict \<Rightarrow> int option \<Rightarrow> error + 'a tensor" where
  "pack self tensors axis =
     bindE (case axis of Some a \<Rightarrow> Inr a
            | None \<Rightarrow> bindE (getattr self ''axis_pack'') as_int) (\<lambda>a.
     bindE (bindE (getattr self ''names'') as_names) (\<lambda>names.
       pack_names tensors names a))"

text \<open>
  \<^verbatim>\<open>Packer.unpack\<close> first removes \<open>axis\<close> from the list of the tensor's sizes
  (\<^verbatim>\<open>packed_shape.pop(axis)\<close>, an \<^verbatim>\<open>IndexError\<close> outside the rank) and
  wraps the result of \<^verbatim>\<open>_unpack\<close> in a \<^verbatim>\<open>TensorDict\<close>, which is read here
  as the dictionary it holds.
\<close>

definition unpack :: "pyobject \<Rightarrow> 'a tensor \<Rightarrow> int option \<Rightarrow> error + 'a tensor dict" where
  "unpack self tensor axis =
     bindE (case axis of Some a \<Rightarrow> Inr a
            | None \<Rightarrow> bindE (getattr self ''axis_unpack'') as_int) (\<lambda>a.
     bindE (wrap_dim a (ndim tensor)) (\<lambda>popped.
     bindE (bindE (getattr self ''names'') as_names) (\<lambda>names.
       unpack_names tensor names a)))"

text \<open>
  \<^verbatim>\<open>get_state\<close> builds \<^verbatim>\<open>{"names": self.names, "axis": self.axis}\<close>, reading
  the two attributes in this order; \<^verbatim>\<open>from_state\<close> calls
  \<^verbatim>\<open>Packer(state["names"], state["axis"])\<close>.
\<close>

definition get_state :: "pyobject \<Rightarrow> error + pyval dict" where
  "get_state self =
     bindE (getattr self ''names'') (\<lambda>n.
     bindE (getattr self ''axis'') (\<lambda>a.
       Inr (dict_of_items [(''names'', n), (''axis'', a)])))"

definition from_state :: "pyval dict \<Rightarrow> error + pyobject" where
  "from_state state =
     bindE (getitem state ''names'') (\<lambda>n.
     bindE (getitem state ''axis'') (\<lambda>a.
     bindE (as_names n) (\<lambda>names.
     bindE (as_int a) (\<lambda>axis.
       Packer_init names (Some axis) None None))))"

section \<open>The ClimateData view (aggregator/climate_data.py)\<close>

definition CLIMATE_FIELD_NAME_PREFIXES :: "string list dict" where
  "CLIMATE_FIELD_NAME_PREFIXES =
     [(''specific_total_water'', [''specific_total_water_'']),
      (''surface_pressure'', [''PRESsfc'', ''PS'']),
      (''tendency_of_total_water_path_due_to_advection'',
         [''tendency_of_total_water_path_due_to_advection'']),
      (''latent_heat_flux'', [''LHTFLsfc'', ''LHFLX'']),
      (''sensible_heat_flux'', [''SHTFLsfc'']),
      (''precipitation_rate'', [''PRATEsfc'', ''surface_precipitation_rate'']),
      (''sfc_down_sw_radiative_flux'', [''DSWRFsfc'']),
      (''sfc_up_sw_radiative_flux'', [''USWRFsfc'']),
      (''sfc_down_lw_radiative_flux'', [''DLWRFsfc'']),
      (''sfc_up_lw_radiative_flux'', [''ULWRFsfc''])]"

subsection \<open>Natural sort\<close>

text \<open>
  Field names are ASCII strings. \<^verbatim>\<open>re.split("([0-9]+)", item)\<close> cuts a name into
  text, digits, text, ..., text: it starts and ends with a (possibly empty) text token.
  \<open>re_split dig cur rest\<close> scans \<open>rest\<close> with the current token \<open>cur\<close> (reversed),
  \<open>dig\<close> telling whether that token is a run of digits.
\<close>

definition isdigit_char :: "char \<Rightarrow> bool" where
  "isdigit_char c = (48 \<le> (of_char c :: nat) \<and> (of_char c :: nat) \<le> 57)"

fun re_split :: "bool \<Rightarrow> string \<Rightarrow> string \<Rightarrow> string list" where
  "re_split dig cur [] = (if dig then [rev cur, []] else [rev cur])"
| "re_split dig cur (c # cs) =
     (if isdigit_char c = dig then re_split dig (c # cur) cs
      else rev cur # re_split (\<not> dig) [c] cs)"

datatype token = TInt nat | TStr string

definition lower_char :: "char \<Rightarrow> char" where
  "lower_char c =
     (if 65 \<le> (of_char c :: nat) \<and> (of_char c :: nat) \<le> 90
      then char_of ((of_char c :: nat) + 32) else c)"

definition int_of_digits :: "string \<Rightarrow> nat" where
  "int_of_digits s = foldl (\<lambda>n c. 10 * n + ((of_char c :: nat) - 48)) 0 s"

definition convert :: "string \<Rightarrow> token" where
  "convert text =
     (if text \<noteq> [] \<and> list_all isdigit_char text then TInt (int_of_digits text)
      else TStr (map lower_char text))"

definition alphanum_key :: "string \<Rightarrow> token list" where
  "alphanum_key item = map convert (re_split False [] item)"

text \<open>
  Python compares the keys as lists: the first position where they differ decides, a
  proper prefix is smaller. Tokens at one position are both numbers or both texts (the
  positions alternate), so the mixed comparison, a \<^verbatim>\<open>TypeError\<close> in Python, does
  not arise; strings compare by code point.
\<close>

fun str_lt :: "string \<Rightarrow> string \<Rightarrow> bool" where
  "str_lt [] [] = False"
| "str_lt [] (d # ds) = True"
| "str_lt (c # cs) [] = False"
| "str_lt (c # cs) (d # ds) =
     ((of_char c :: nat) < of_char d \<or> (c = d \<and> str_lt cs ds))"

fun token_lt :: "token \<Rightarrow> token \<Rightarrow> bool" where
  "token_lt (TInt m) (TInt n) = (m < n)"
| "token_lt (TStr s) (TStr t) = str_lt s t"
| "token_lt a b = False"

fun key_lt :: "token list \<Rightarrow> token list \<Rightarrow> bool" where
  "key_lt [] [] = False"
| "key_lt [] (b # bs) = True"
| "key_lt (a # as) [] = False"
| "key_lt (a # as) (b # bs) = (if a = b then key_lt as bs else token_lt a b)"

text \<open>
  \<^verbatim>\<open>sorted(alist, key=alphanum_key)\<close> is stable: an item is placed behind the items
  with a smaller key and in front of the later items with an equal key.
\<close>

fun insert_by_key :: "string \<Rightarrow> string list \<Rightarrow> string list" where
  "insert_by_key x [] = [x]"
| "insert_by_key x (y # ys) =
     (if key_lt (alphanum_key y) (alphanum_key x) then y # insert_by_key x ys
      else x # y # ys)"

definition natural_sort :: "string list \<Rightarrow> string list" where
  "natural_sort alist = foldr insert_by_key alist []"

subsection \<open>Alias resolution\<close>

text \<open>
  \<^verbatim>\<open>ClimateData.__init__\<close> stores \<^verbatim>\<open>dict(climate_data)\<close>, a new dictionary
  with the items of the caller's mapping, in \<^verbatim>\<open>self._data\<close>. In the functional
  reading below the view is the record of that dictionary and the prefix table, and a
  setter returns the updated view. The aliasing with the caller's mapping is made
  explicit in the store model further down.
\<close>

record 'v ClimateData =
  data :: "'v dict"
  prefixes :: "string list dict"

definition ClimateData_init :: "'v dict \<Rightarrow> string list dict \<Rightarrow> 'v ClimateData" where
  "ClimateData_init climate_data climate_field_name_prefixes =
     \<lparr>data = climate_data, prefixes = climate_field_name_prefixes\<rparr>"

definition startswith :: "string \<Rightarrow> string \<Rightarrow> bool" where
  "startswith s p = (take (length p) s = p)"

definition endswith :: "string \<Rightarrow> string \<Rightarrow> bool" where
  "endswith s p = (length p \<le> length s \<and> drop (length s - length p) s = p)"

text \<open>\<^verbatim>\<open>_get\<close>: the first alias that is a key of the data decides.\<close>

definition ClimateData_get :: "'v ClimateData \<Rightarrow> string \<Rightarrow> error + 'v" where
  "ClimateData_get self name =
     bindE (getitem (prefixes self) name) (\<lambda>ps.
       case find (\<lambda>prefix. prefix \<in> set (keys (data self))) ps of
         Some prefix \<Rightarrow> getitem (data self) prefix
       | None \<Rightarrow> Inl (KeyError name))"

text \<open>\<^verbatim>\<open>_set\<close>: writes under the first alias that is a key of the data.\<close>

definition ClimateData_set :: "'v ClimateData \<Rightarrow> string \<Rightarrow> 'v \<Rightarrow> error + 'v ClimateData" where
  "ClimateData_set self name v =
     bindE (getitem (prefixes self) name) (\<lambda>ps.
       case find (\<lambda>prefix. prefix \<in> set (keys (data self))) ps of
         Some prefix \<Rightarrow> Inr (self\<lparr>data := AList.update prefix v (data self)\<rparr>)
       | None \<Rightarrow> Inl (KeyError name))"

subsection \<open>The view and the caller's mapping in one store\<close>

text \<open>
  To state what a caller observes, dictionaries are objects in a store: the address of
  a dictionary is its position in the list of all dictionaries. \<open>ClimateData_new\<close> is
  the constructor called on the caller's mapping at address \<open>m\<close>: it allocates the
  dictionary \<^verbatim>\<open>dict(climate_data)\<close> and the view refers to that one.
  \<open>ClimateData_setattr\<close> is a property assignment through the view.
\<close>

type_synonym 'v store = "'v dict list"

record view =
  data_ref :: nat
  view_prefixes :: "string list dict"

definition ClimateData_new :: "'v store \<Rightarrow> nat \<Rightarrow> string list dict \<Rightarrow> 'v store \<times> view" where
  "ClimateData_new h m pf =
     (h @ [data (ClimateData_init (h ! m) pf)], \<lparr>data_ref = length h, view_prefixes = pf\<rparr>)"

definition ClimateData_setattr :: "'v store \<Rightarrow> view \<Rightarrow> string \<Rightarrow> 'v \<Rightarrow> error + 'v store" where
  "ClimateData_setattr h v name x =
     bindE (ClimateData_set \<lparr>data = h ! data_ref v, prefixes = view_prefixes v\<rparr> name x)
       (\<lambda>self. Inr (h[data_ref v := data self]))"

text \<open>
  The scenario of a caller that owns one mapping, wraps it and assigns a field through
  the view: the result is the caller's mapping and the view's \<^verbatim>\<open>data\<close> afterwards.
\<close>

definition assign_through_view ::
  "'v dict \<Rightarrow> string list dict \<Rightarrow> string \<Rightarrow> 'v \<Rightarrow> error + ('v dict \<times> 'v dict)" where
  "assign_through_view m pf name x =
     (case ClimateData_new [m] 0 pf of (h, v) \<Rightarrow>
        bindE (ClimateData_setattr h v name x) (\<lambda>h'. Inr (h' ! 0, h' ! data_ref v)))"

section \<open>Floating-point fields\<close>

text \<open>
  A float is a real number or a non-finite value (an infinity or NaN). Rounding and
  overflow are not modelled, so an equation "to floating tolerance" is an exact
  equation between finite values here. Sums, differences and products with a
  non-finite operand are non-finite, as in IEEE arithmetic; a division by zero is
  non-finite; and the quotient by a non-finite divisor is taken as non-finite, which
  is what IEEE gives wherever the functions below divide, as long as the entries of
  their input tensors are finite (a divisor is then non-finite only together with its
  dividend). No exception is raised by any of these operations.
\<close>

datatype fval = Fin real | NonFin

fun fadd :: "fval \<Rightarrow> fval \<Rightarrow> fval" where
  "fadd (Fin a) (Fin b) = Fin (a + b)"
| "fadd x y = NonFin"

fun fsub :: "fval \<Rightarrow> fval \<Rightarrow> fval" where
  "fsub (Fin a) (Fin b) = Fin (a - b)"
| "fsub x y = NonFin"

fun fmul :: "fval \<Rightarrow> fval \<Rightarrow> fval" where
  "fmul (Fin a) (Fin b) = Fin (a * b)"
| "fmul x y = NonFin"

fun fdiv :: "fval \<Rightarrow> fval \<Rightarrow> fval" where
  "fdiv (Fin a) (Fin b) = (if b = 0 then NonFin else Fin (a / b))"
| "fdiv x y = NonFin"

definition fsum :: "fval list \<Rightarrow> fval" where
  "fsum xs = foldr fadd xs (Fin 0)"

text \<open>
  The corrector receives fields of shape (sample, lat, lon), the area weights have
  shape (lat, lon), the sigma coordinates are vectors, and a multi-level quantity has
  the levels as its last dimension. An elementwise operation needs operands of equal
  sizes and raises \<^verbatim>\<open>RuntimeError\<close> otherwise; torch's expansion of a dimension of
  size one is modelled only where the source relies on it (\<open>sub_bcast\<close>,
  \<open>mul_bcast\<close>, the level vectors).
\<close>

type_synonym tensor1 = "fval list"
type_synonym tensor2 = "fval list list"
type_synonym tensor3 = "fval list list list"
type_synonym tensor4 = "fval list list list list"

definition zipE :: "('a \<Rightarrow> 'b \<Rightarrow> error + 'c) \<Rightarrow> 'a list \<Rightarrow> 'b list \<Rightarrow> error + 'c list" where
  "zipE f xs ys =
     (if length xs = length ys then mapE (\<lambda>(x, y). f x y) (zip xs ys)
      else Inl (RuntimeError ''The size of tensor a must match the size of tensor b''))"

definition ew1 :: "(fval \<Rightarrow> fval \<Rightarrow> fval) \<Rightarrow> tensor1 \<Rightarrow> tensor1 \<Rightarrow> error + tensor1" where
  "ew1 f = zipE (\<lambda>x y. Inr (f x y))"

definition ew2 :: "(fval \<Rightarrow> fval \<Rightarrow> fval) \<Rightarrow> tensor2 \<Rightarrow> tensor2 \<Rightarrow> error + tensor2" where
  "ew2 f = zipE (ew1 f)"

definition ew3 :: "(fval \<Rightarrow> fval \<Rightarrow> fval) \<Rightarrow> tensor3 \<Rightarrow> tensor3 \<Rightarrow> error + tensor3" where
  "ew3 f = zipE (ew2 f)"

definition map3 :: "(fval \<Rightarrow> fval) \<Rightarrow> tensor3 \<Rightarrow> tensor3" where
  "map3 f = map (map (map f))"

text \<open>\<^verbatim>\<open>t - e[..., None, None]\<close> and \<^verbatim>\<open>t * e[..., None, None]\<close>.\<close>

definition sub_bcast :: "tensor3 \<Rightarrow> tensor1 \<Rightarrow> error + tensor3" where
  "sub_bcast t e = zipE (\<lambda>g x. Inr (map (map (\<lambda>y. fsub y x)) g)) t e"

definition mul_bcast :: "tensor3 \<Rightarrow> tensor1 \<Rightarrow> error + tensor3" where
  "mul_bcast t e = zipE (\<lambda>g x. Inr (map (map (\<lambda>y. fmul y x)) g)) t e"

text \<open>\<^verbatim>\<open>tensor.diff()\<close> of a vector.\<close>

definition diff1 :: "tensor1 \<Rightarrow> tensor1" where
  "diff1 xs = map2 (\<lambda>a b. fsub b a) xs (tl xs)"

text \<open>\<^verbatim>\<open>(d * wat).sum(-1)\<close> for a level vector \<open>d\<close>.\<close>

definition level_sum :: "tensor1 \<Rightarrow> tensor4 \<Rightarrow> error + tensor3" where
  "level_sum d wat = mapE (mapE (mapE (\<lambda>q. bindE (ew1 fmul d q) (\<lambda>p. Inr (fsum p))))) wat"

text \<open>
  \<^verbatim>\<open>torch.stack(fields, dim=-1)\<close> of fields of one shape: every cell collects its
  values in the order of the list.
\<close>

definition stack_last :: "tensor3 list \<Rightarrow> error + tensor4" where
  "stack_last ts =
     (if ts = [] then Inl (RuntimeError ''stack expects a non-empty TensorList'')
      else if list_all (\<lambda>t. map (map length) t = map (map length) (hd ts)) ts then
        Inr (foldr (\<lambda>t acc. map2 (map2 (map2 (#))) t acc) ts
               (map (map (map (\<lambda>x. []))) (hd ts)))
      else Inl (RuntimeError ''stack expects each tensor to be equal size''))"

text \<open>\<^verbatim>\<open>tensor.shape[-1]\<close> of a tensor with four dimensions, none of size zero.\<close>

definition last_dim4 :: "tensor4 \<Rightarrow> nat" where
  "last_dim4 t = (case concat (concat t) of [] \<Rightarrow> 0 | q # qs \<Rightarrow> length q)"

section \<open>Metrics (evaluation/metrics.py)\<close>

definition GRAVITY :: real where
  "GRAVITY = 980665 / 100000"

text \<open>
  \<^verbatim>\<open>weighted_mean(tensor, weights, dim=(-2, -1))\<close> with weights given, as the
  corrector calls it:
  \<^verbatim>\<open>(tensor * weights).sum(dim) / weights.expand(tensor.shape).sum(dim)\<close>, one mean
  per sample; a \<^verbatim>\<open>RuntimeError\<close> is raised again with the function's own message.
\<close>

definition sum2 :: "tensor2 \<Rightarrow> fval" where
  "sum2 g = fsum (map fsum g)"

definition weighted_mean :: "tensor3 \<Rightarrow> tensor2 \<Rightarrow> error + tensor1" where
  "weighted_mean tensor weights =
     (case mapE (\<lambda>g. bindE (ew2 fmul g weights) (\<lambda>p. Inr (fdiv (sum2 p) (sum2 weights)))) tensor of
        Inl e \<Rightarrow> Inl (RuntimeError ''Error computing weighted mean'')
      | Inr m \<Rightarrow> Inr m)"

text \<open>
  \<^verbatim>\<open>vertical_integral\<close>: in each column the pressure thickness of the levels is
  \<^verbatim>\<open>(ak + ps * bk).diff()\<close> and the integral is
  \<^verbatim>\<open>1 / GRAVITY * sum(pressure_thickness * integrand)\<close>. The device check is not
  modelled.
\<close>

definition column_integral :: "tensor1 \<Rightarrow> tensor1 \<Rightarrow> fval \<Rightarrow> tensor1 \<Rightarrow> error + fval" where
  "column_integral ak bk ps q =
     bindE (ew1 (\<lambda>a b. fadd a (fmul ps b)) ak bk) (\<lambda>p.
     bindE (ew1 fmul (diff1 p) q) (\<lambda>pq.
       Inr (fmul (fdiv (Fin 1) (Fin GRAVITY)) (fsum pq))))"

definition vertical_integral ::
  "tensor4 \<Rightarrow> tensor3 \<Rightarrow> tensor1 \<Rightarrow> tensor1 \<Rightarrow> error + tensor3" where
  "vertical_integral integrand surface_pressure sigma_grid_offsets_ak sigma_grid_offsets_bk =
     zipE (zipE (zipE (column_integral sigma_grid_offsets_ak sigma_grid_offsets_bk)))
       surface_pressure integrand"

definition surface_pressure_due_to_dry_air ::
  "tensor4 \<Rightarrow> tensor3 \<Rightarrow> tensor1 \<Rightarrow> tensor1 \<Rightarrow> error + tensor3" where
  "surface_pressure_due_to_dry_air specific_total_water surface_pressure
       sigma_grid_offsets_ak sigma_grid_offsets_bk =
     (let num_levels = int (length sigma_grid_offsets_ak) - 1 in
      if num_levels \<noteq> int (length sigma_grid_offsets_bk) - 1
         \<or> num_levels \<noteq> int (last_dim4 specific_total_water)
      then Inl (ValueError
        ''Number of vertical levels in ak, bk, and specific_total_water mustbe the same.'')
      else
        bindE (vertical_integral specific_total_water surface_pressure
                 sigma_grid_offsets_ak sigma_grid_offsets_bk) (\<lambda>total_water_path.
          ew3 (\<lambda>p w. fsub p (fmul (Fin GRAVITY) w)) surface_pressure total_water_path))"

section \<open>Physical quantities of the ClimateData view\<close>

record SigmaCoordinates =
  ak :: tensor1
  bk :: tensor1

definition extract_prefix_levels :: "tensor3 ClimateData \<Rightarrow> string \<Rightarrow> error + tensor4" where
  "extract_prefix_levels self prefix =
     (let names = filter (\<lambda>field_name. startswith field_name prefix) (keys (data self)) in
      if length names = 0 then Inl (KeyError prefix)
      else bindE (mapE (getitem (data self)) (natural_sort names)) stack_last)"

text \<open>
  \<^verbatim>\<open>_extract_levels\<close> tries the prefixes in turn; \<^verbatim>\<open>except KeyError: pass\<close>
  goes on to the next prefix, any other exception propagates.
\<close>

fun extract_levels :: "tensor3 ClimateData \<Rightarrow> string list \<Rightarrow> string list \<Rightarrow> error + tensor4" where
  "extract_levels self name [] = Inl (KeyErrorList name)"
| "extract_levels self name (prefix # rest) =
     (case extract_prefix_levels self prefix of
        Inl (KeyError k) \<Rightarrow> extract_levels self name rest
      | Inl (KeyErrorList ks) \<Rightarrow> extract_levels self name rest
      | Inl e \<Rightarrow> Inl e
      | Inr t \<Rightarrow> Inr t)"

definition specific_total_water :: "tensor3 ClimateData \<Rightarrow> error + tensor4" where
  "specific_total_water self =
     bindE (getitem (prefixes self) ''specific_total_water'') (\<lambda>prefix.
       extract_levels self prefix prefix)"

definition surface_pressure :: "'v ClimateData \<Rightarrow> error + 'v" where
  "surface_pressure self = ClimateData_get self ''surface_pressure''"

definition set_surface_pressure :: "'v ClimateData \<Rightarrow> 'v \<Rightarrow> error + 'v ClimateData" where
  "set_surface_pressure self v = ClimateData_set self ''surface_pressure'' v"

text \<open>
  The arguments of the call are evaluated from left to right: first
  \<^verbatim>\<open>self.specific_total_water\<close>, then \<^verbatim>\<open>self.surface_pressure\<close>.
\<close>

definition dry_air_of :: "tensor3 ClimateData \<Rightarrow> SigmaCoordinates \<Rightarrow> error + tensor3" where
  "dry_air_of self sigma_coordinates =
     bindE (specific_total_water self) (\<lambda>wat.
     bindE (surface_pressure self) (\<lambda>ps.
       surface_pressure_due_to_dry_air wat ps (ak sigma_coordinates) (bk sigma_coordinates)))"

definition total_water_path :: "tensor3 ClimateData \<Rightarrow> SigmaCoordinates \<Rightarrow> error + tensor3" where
  "total_water_path self sigma_coordinates =
     bindE (specific_total_water self) (\<lambda>wat.
     bindE (surface_pressure self) (\<lambda>ps.
       vertical_integral wat ps (ak sigma_coordinates) (bk sigma_coordinates)))"

definition precipitation_rate :: "'v ClimateData \<Rightarrow> error + 'v" where
  "precipitation_rate self = ClimateData_get self ''precipitation_rate''"

definition set_precipitation_rate :: "'v ClimateData \<Rightarrow> 'v \<Rightarrow> error + 'v ClimateData" where
  "set_precipitation_rate self v = ClimateData_set self ''precipitation_rate'' v"

text \<open>
  \<^verbatim>\<open>LATENT_HEAT_OF_VAPORIZATION\<close> and \<^verbatim>\<open>TIMESTEP_SECONDS\<close> come from a
  constants module that is not part of the sources at hand; they are parameters.
\<close>

definition evaporation_rate :: "real \<Rightarrow> tensor3 ClimateData \<Rightarrow> error + tensor3" where
  "evaporation_rate LATENT_HEAT_OF_VAPORIZATION self =
     bindE (ClimateData_get self ''latent_heat_flux'') (\<lambda>lhf.
       Inr (map3 (\<lambda>x. fdiv x (Fin LATENT_HEAT_OF_VAPORIZATION)) lhf))"

definition set_evaporation_rate ::
  "real \<Rightarrow> tensor3 ClimateData \<Rightarrow> tensor3 \<Rightarrow> error + tensor3 ClimateData" where
  "set_evaporation_rate LATENT_HEAT_OF_VAPORIZATION self v =
     ClimateData_set self ''latent_heat_flux''
       (map3 (\<lambda>x. fmul x (Fin LATENT_HEAT_OF_VAPORIZATION)) v)"

definition tendency_of_total_water_path_due_to_advection :: "'v ClimateData \<Rightarrow> error + 'v" where
  "tendency_of_total_water_path_due_to_advection self =
     ClimateData_get self ''tendency_of_total_water_path_due_to_advection''"

definition set_tendency_of_total_water_path_due_to_advection ::
  "'v ClimateData \<Rightarrow> 'v \<Rightarrow> error + 'v ClimateData" where
  "set_tendency_of_total_water_path_due_to_advection self v =
     ClimateData_set self ''tendency_of_total_water_path_due_to_advection'' v"

section \<open>The corrector (ace_inference/core/corrector.py)\<close>

text \<open>
  The mappings are typed \<^verbatim>\<open>Mapping[str, torch.Tensor]\<close>: a value read from one is a
  tensor, and a tensor is not \<^verbatim>\<open>None\<close>.
\<close>

definition is_None :: "'v \<Rightarrow> bool" where
  "is_None v = False"

text \<open>
  \<^verbatim>\<open>_force_conserve_dry_air\<close>. The cast of the new pressure to the dtype of the
  input pressure is the identity here.
\<close>

definition force_conserve_dry_air ::
  "tensor3 dict \<Rightarrow> tensor3 dict \<Rightarrow> tensor2 \<Rightarrow> SigmaCoordinates \<Rightarrow> error + tensor3 dict" where
  "force_conserve_dry_air input_data gen_data area sigma_coordinates =
     (let input = ClimateData_init input_data CLIMATE_FIELD_NAME_PREFIXES in
      bindE (surface_pressure input) (\<lambda>input_surface_pressure.
      if is_None input_surface_pressure then
        Inl (ValueError ''surface_pressure is required to force dry air conservation'')
      else
        let gen = ClimateData_init gen_data CLIMATE_FIELD_NAME_PREFIXES in
        bindE (dry_air_of gen sigma_coordinates) (\<lambda>gen_dry_air.
        bindE (weighted_mean gen_dry_air area) (\<lambda>global_gen_dry_air.
        bindE (dry_air_of input sigma_coordinates) (\<lambda>input_dry_air.
        bindE (weighted_mean input_dry_air area) (\<lambda>global_target_gen_dry_air.
        bindE (ew1 fsub global_gen_dry_air global_target_gen_dry_air) (\<lambda>err.
        bindE (sub_bcast gen_dry_air err) (\<lambda>new_gen_dry_air.
        bindE (case specific_total_water gen of
                 Inl (KeyError k) \<Rightarrow>
                   Inl (ValueError ''specific_total_water is required for conservation'')
               | Inl (KeyErrorList ks) \<Rightarrow>
                   Inl (ValueError ''specific_total_water is required for conservation'')
               | Inl e \<Rightarrow> Inl e
               | Inr w \<Rightarrow> Inr w) (\<lambda>wat.
        let ak_diff = diff1 (ak sigma_coordinates);
            bk_diff = diff1 (bk sigma_coordinates) in
        bindE (level_sum ak_diff wat) (\<lambda>ak_wat.
        bindE (ew3 fadd new_gen_dry_air ak_wat) (\<lambda>numerator.
        bindE (level_sum bk_diff wat) (\<lambda>bk_wat.
        bindE (ew3 fdiv numerator (map3 (\<lambda>x. fsub (Fin 1) x) bk_wat)) (\<lambda>new_pressure.
        bindE (set_surface_pressure gen new_pressure) (\<lambda>gen'.
          Inr (data gen')))))))))))))))"

definition force_zero_global_mean_moisture_advection ::
  "tensor3 dict \<Rightarrow> tensor2 \<Rightarrow> error + tensor3 dict" where
  "force_zero_global_mean_moisture_advection gen_data area =
     (let gen = ClimateData_init gen_data CLIMATE_FIELD_NAME_PREFIXES in
      bindE (tendency_of_total_water_path_due_to_advection gen) (\<lambda>advection.
      bindE (weighted_mean advection area) (\<lambda>mean_moisture_advection.
      bindE (tendency_of_total_water_path_due_to_advection gen) (\<lambda>advection'.
      bindE (sub_bcast advection' mean_moisture_advection) (\<lambda>new_advection.
      bindE (set_tendency_of_total_water_path_due_to_advection gen new_advection) (\<lambda>gen'.
        Inr (data gen')))))))"

definition force_conserve_moisture ::
  "real \<Rightarrow> real \<Rightarrow> tensor3 dict \<Rightarrow> tensor3 dict \<Rightarrow> tensor2 \<Rightarrow> SigmaCoordinates \<Rightarrow> string
     \<Rightarrow> error + tensor3 dict" where
  "force_conserve_moisture TIMESTEP_SECONDS LATENT_HEAT_OF_VAPORIZATION
       input_data gen_data area sigma_coordinates terms_to_modify =
     (let input = ClimateData_init input_data CLIMATE_FIELD_NAME_PREFIXES;
          gen = ClimateData_init gen_data CLIMATE_FIELD_NAME_PREFIXES in
      bindE (total_water_path gen sigma_coordinates) (\<lambda>gen_total_water_path.
      bindE (total_water_path input sigma_coordinates) (\<lambda>input_total_water_path.
      bindE (ew3 fsub gen_total_water_path input_total_water_path) (\<lambda>twp_difference.
      let twp_total_tendency = map3 (\<lambda>x. fdiv x (Fin TIMESTEP_SECONDS)) twp_difference in
      bindE (weighted_mean twp_total_tendency area) (\<lambda>twp_tendency_global_mean.
      bindE (evaporation_rate LATENT_HEAT_OF_VAPORIZATION gen) (\<lambda>evaporation.
      bindE (weighted_mean evaporation area) (\<lambda>evaporation_global_mean.
      bindE (precipitation_rate gen) (\<lambda>precipitation.
      bindE (weighted_mean precipitation area) (\<lambda>precipitation_global_mean.
      bindE
        (if endswith terms_to_modify ''precipitation'' then
           bindE (ew1 fsub evaporation_global_mean twp_tendency_global_mean)
             (\<lambda>new_precipitation_global_mean.
           bindE (precipitation_rate gen) (\<lambda>old_precipitation.
           bindE (ew1 fdiv new_precipitation_global_mean precipitation_global_mean) (\<lambda>ratio.
           bindE (mul_bcast old_precipitation ratio) (\<lambda>new_precipitation.
             set_precipitation_rate gen new_precipitation))))
         else if endswith terms_to_modify ''evaporation'' then
           bindE (ew1 fadd twp_tendency_global_mean precipitation_global_mean)
             (\<lambda>new_evaporation_global_mean.
           bindE (evaporation_rate LATENT_HEAT_OF_VAPORIZATION gen) (\<lambda>old_evaporation.
           bindE (ew1 fdiv new_evaporation_global_mean evaporation_global_mean) (\<lambda>ratio.
           bindE (mul_bcast old_evaporation ratio) (\<lambda>new_evaporation.
             set_evaporation_rate LATENT_HEAT_OF_VAPORIZATION gen new_evaporation))))
         else Inr gen) (\<lambda>gen1.
      bindE
        (if startswith terms_to_modify ''advection'' then
           bindE (evaporation_rate LATENT_HEAT_OF_VAPORIZATION gen1) (\<lambda>evaporation1.
           bindE (precipitation_rate gen1) (\<lambda>precipitation1.
           bindE (ew3 fsub evaporation1 precipitation1) (\<lambda>net.
           bindE (ew3 fsub twp_total_tendency net) (\<lambda>new_advection.
             set_tendency_of_total_water_path_due_to_advection gen1 new_advection))))
         else Inr gen1) (\<lambda>gen2.
        Inr (data gen2))))))))))))"

record CorrectorConfig =
  conserve_dry_air :: bool
  zero_global_mean_moisture_advection :: bool
  moisture_budget_correction :: "string option"

record Corrector =
  corrector_config :: CorrectorConfig
  corrector_area :: tensor2
  corrector_sigma_coordinates :: SigmaCoordinates

text \<open>\<^verbatim>\<open>Corrector.__call__\<close>: the enabled stages in their fixed order.\<close>

definition Corrector_call ::
  "real \<Rightarrow> real \<Rightarrow> Corrector \<Rightarrow> tensor3 dict \<Rightarrow> tensor3 dict \<Rightarrow> error + tensor3 dict" where
  "Corrector_call TIMESTEP_SECONDS LATENT_HEAT_OF_VAPORIZATION self input_data gen_data =
     bindE (if conserve_dry_air (corrector_config self) then
              force_conserve_dry_air input_data gen_data (corrector_area self)
                (corrector_sigma_coordinates self)
            else Inr gen_data) (\<lambda>gen_data1.
     bindE (if zero_global_mean_moisture_advection (corrector_config self) then
              force_zero_global_mean_moisture_advection gen_data1 (corrector_area self)
            else Inr gen_data1) (\<lambda>gen_data2.
     (case moisture_budget_correction (corrector_config self) of
        Some terms_to_modify \<Rightarrow>
          force_conserve_moisture TIMESTEP_SECONDS LATENT_HEAT_OF_VAPORIZATION
            input_data gen_data2 (corrector_area self) (corrector_sigma_coordinates self)
            terms_to_modify
      | None \<Rightarrow> Inr gen_data2)))"

section \<open>The autoregressive rollout (ace_inference/core/stepper.py)\<close>

text \<open>
  \<^verbatim>\<open>f"{n}"\<close> for a non-negative integer.
\<close>

function string_of_nat :: "nat \<Rightarrow> string" where
  "string_of_nat n =
     (if n < 10 then [char_of (48 + n)]
      else string_of_nat (n div 10) @ [char_of (48 + n mod 10)])"
  by pat_completeness auto
termination
  by (relation "measure (\<lambda>n. n)") auto

text \<open>
  \<^verbatim>\<open>get_name_and_time_query_fn\<close> returns a function of the names, the time index
  and the mode; here the three arguments of the constructor come first. An
  \<^verbatim>\<open>IndexError\<close> of \<^verbatim>\<open>select\<close> becomes a \<^verbatim>\<open>ValueError\<close>; a missing name
  is a \<^verbatim>\<open>KeyError\<close>, which is not caught.
\<close>

definition name_and_time_query_fn ::
  "'a tensor dict \<Rightarrow> 'a tensor dict \<Rightarrow> int \<Rightarrow> string list \<Rightarrow> nat \<Rightarrow> string
     \<Rightarrow> error + 'a tensor dict" where
  "name_and_time_query_fn data' data_norm time_dim names time_index norm_mode =
     bindE (getitem [(''norm'', data_norm), (''denorm'', data')] norm_mode) (\<lambda>selected.
     bindE (mapE (\<lambda>name.
              bindE (getitem selected name) (\<lambda>t.
                case select t time_dim time_index of
                  Inl (IndexError m) \<Rightarrow>
                    Inl (ValueError (''tensor \"'' @ name @ ''\" does not have values at t=''
                                       @ string_of_nat time_index))
                | Inl e \<Rightarrow> Inl e
                | Inr v \<Rightarrow> Inr (name, v))) names) (\<lambda>items.
       Inr (dict_of_items items)))"

text \<open>\<^verbatim>\<open>_pack_data_if_available\<close>: only a \<^verbatim>\<open>ValueError\<close> of \<^verbatim>\<open>pack\<close> is caught.\<close>

definition pack_data_if_available ::
  "pyobject \<Rightarrow> 'a tensor dict \<Rightarrow> int \<Rightarrow> error + 'a tensor option" where
  "pack_data_if_available packer data' axis =
     (case pack packer data' (Some axis) of
        Inl (ValueError m) \<Rightarrow> Inr None
      | Inl e \<Rightarrow> Inl e
      | Inr t \<Rightarrow> Inr (Some t))"

text \<open>
  Modelled from the spec: the normalizer (\<^verbatim>\<open>ace_inference/core/normalizer.py\<close> is not
  among the sources). It is a per-field transform of the values and its inverse,
  applied to every entry of every tensor of a mapping; the two per-field functions
  are parameters.
\<close>

definition normalize :: "(string \<Rightarrow> 'a \<Rightarrow> 'a) \<Rightarrow> 'a tensor dict \<Rightarrow> 'a tensor dict" where
  "normalize f tensors = map (\<lambda>(k, t). (k, map_tensor (f k) t)) tensors"

text \<open>
  The ocean, the corrector, the network, the loss and the conservation loss are
  arguments of \<^verbatim>\<open>run_on_batch\<close>. The optimization object, the aggregator, the
  progress bar and the dropout switch act on objects outside the returned value and
  are left out; a step loss is a float, \<^verbatim>\<open>torch.tensor(torch.nan)\<close> is \<open>NonFin\<close>.
\<close>

record 'a Ocean =
  target_names :: "string list"
  ocean_call :: "'a tensor dict \<Rightarrow> 'a tensor dict \<Rightarrow> 'a tensor dict \<Rightarrow> error + 'a tensor dict"

record 'a run_args =
  batch_data :: "'a tensor dict"
  network :: "'a tensor \<Rightarrow> error + 'a tensor"
  norm_fn :: "string \<Rightarrow> 'a \<Rightarrow> 'a"
  denorm_fn :: "string \<Rightarrow> 'a \<Rightarrow> 'a"
  in_packer :: pyobject
  out_packer :: pyobject
  loss_obj :: "'a tensor \<Rightarrow> 'a tensor \<Rightarrow> fval"
  ocean :: "'a Ocean option"
  corrector :: "('a tensor dict \<Rightarrow> 'a tensor dict \<Rightarrow> error + 'a tensor dict) option"
  conservation_loss :: "'a tensor dict \<Rightarrow> fval dict \<times> fval"

definition channel_dim :: int where
  "channel_dim = - 3"

definition time_dim :: int where
  "time_dim = 1"

definition full_data_norm :: "'a run_args \<Rightarrow> 'a tensor dict" where
  "full_data_norm args = normalize (norm_fn args) (batch_data args)"

definition get_input_data :: "'a run_args \<Rightarrow> string list \<Rightarrow> nat \<Rightarrow> string \<Rightarrow> error + 'a tensor dict" where
  "get_input_data args = name_and_time_query_fn (batch_data args) (full_data_norm args) time_dim"

definition packer_names :: "pyobject \<Rightarrow> error + string list" where
  "packer_names packer = bindE (getattr packer ''names'') as_names"

text \<open>The variables that the loop of \<^verbatim>\<open>run_on_batch\<close> updates.\<close>

record 'a loop_state =
  input_data_norm :: "'a tensor dict"
  gen_data_norm :: "'a tensor dict list"
  loss :: fval
  metrics :: "fval dict"

text \<open>
  The generated state of one step: the network on the packed input, unpacked and
  denormalized, then the corrector and the ocean.
\<close>

definition generate ::
  "'a run_args \<Rightarrow> nat \<Rightarrow> 'a tensor dict \<Rightarrow> 'a tensor \<Rightarrow> error + 'a tensor dict" where
  "generate args step input_norm input_tensor_norm =
     bindE (network args input_tensor_norm) (\<lambda>gen_tensor_norm.
     bindE (unpack (out_packer args) gen_tensor_norm (Some channel_dim)) (\<lambda>gen_norm.
     let gen_data = normalize (denorm_fn args) gen_norm;
         input_data = normalize (denorm_fn args) input_norm in
     bindE (case corrector args of
              None \<Rightarrow> Inr gen_data
            | Some c \<Rightarrow> c input_data gen_data) (\<lambda>gen_data1.
       (case ocean args of
          None \<Rightarrow> Inr gen_data1
        | Some oc \<Rightarrow>
            bindE (get_input_data args (target_names oc) (step + 1) ''denorm'') (\<lambda>target_data.
              ocean_call oc target_data input_data gen_data1)))))"

text \<open>
  One iteration of the loop. \<^verbatim>\<open>set(in_packer.names).difference(gen_norm.keys())\<close>
  has no defined order; the names are taken in their first order of declaration,
  which does not matter for the dictionary built from them.
\<close>

definition step_body ::
  "'a run_args \<Rightarrow> 'a tensor option \<Rightarrow> nat \<Rightarrow> 'a loop_state \<Rightarrow> error + 'a loop_state" where
  "step_body args full_target_tensor_norm step st =
     bindE (pack (in_packer args) (input_data_norm st) (Some channel_dim)) (\<lambda>input_tensor_norm.
     bindE (case full_target_tensor_norm of
              None \<Rightarrow> Inr None
            | Some full \<Rightarrow> bindE (select full time_dim (step + 1)) (\<lambda>t. Inr (Some t)))
       (\<lambda>target_tensor_norm.
     bindE (generate args step (input_data_norm st) input_tensor_norm) (\<lambda>gen_data.
     let gen_norm = normalize (norm_fn args) gen_data in
     bindE (pack (out_packer args) gen_norm (Some channel_dim)) (\<lambda>gen_tensor_norm.
     let step_loss = (case target_tensor_norm of
                        None \<Rightarrow> NonFin
                      | Some target \<Rightarrow> loss_obj args gen_tensor_norm target) in
     bindE (unpack (out_packer args) gen_tensor_norm (Some channel_dim)) (\<lambda>gen_norm1.
     bindE (packer_names (in_packer args)) (\<lambda>in_names.
     let forcing_names = filter (\<lambda>n. n \<notin> set (keys gen_norm1)) (remdups in_names) in
     bindE (get_input_data args forcing_names (step + 1) ''norm'') (\<lambda>forcing_data_norm.
       Inr \<lparr>input_data_norm = dict_merge forcing_data_norm gen_norm1,
            gen_data_norm = gen_data_norm st @ [gen_norm1],
            loss = fadd (loss st) step_loss,
            metrics = AList.update (''loss_step_'' @ string_of_nat step) step_loss
                        (metrics st)\<rparr>)))))))"

text \<open>\<^verbatim>\<open>for step in range(n_forward_steps)\<close>, from the step \<open>step\<close> on.\<close>

fun run_steps ::
  "(nat \<Rightarrow> 'a loop_state \<Rightarrow> error + 'a loop_state) \<Rightarrow> nat \<Rightarrow> nat \<Rightarrow> 'a loop_state
     \<Rightarrow> error + 'a loop_state" where
  "run_steps body 0 step st = Inr st"
| "run_steps body (Suc n) step st = bindE (body step st) (run_steps body n (Suc step))"

definition initial_state :: "'a run_args \<Rightarrow> error + 'a loop_state" where
  "initial_state args =
     bindE (packer_names (in_packer args)) (\<lambda>in_names.
     bindE (get_input_data args in_names 0 ''norm'') (\<lambda>input0.
       Inr \<lparr>input_data_norm = input0, gen_data_norm = [], loss = Fin 0, metrics = []\<rparr>))"

record 'a SteppedData =
  sd_metrics :: "fval dict"
  sd_gen_data :: "'a tensor dict"
  sd_target_data :: "'a tensor dict"
  sd_gen_data_norm :: "'a tensor dict"
  sd_target_data_norm :: "'a tensor dict"

definition run_on_batch :: "'a run_args \<Rightarrow> nat \<Rightarrow> error + 'a SteppedData" where
  "run_on_batch args n_forward_steps =
     bindE (pack_data_if_available (out_packer args) (full_data_norm args) channel_dim)
       (\<lambda>full_target_tensor_norm.
     bindE (initial_state args) (\<lambda>st0.
     bindE (run_steps (step_body args full_target_tensor_norm) n_forward_steps 0 st0) (\<lambda>st.
     bindE (packer_names (out_packer args)) (\<lambda>out_names.
     bindE (get_input_data args out_names 0 ''norm'') (\<lambda>initial.
     let series = initial # gen_data_norm st in
     bindE (mapE (\<lambda>name.
              bindE (mapE (\<lambda>x. getitem x name) series) (\<lambda>ts.
              bindE (stack ts time_dim) (\<lambda>t. Inr (name, t)))) out_names) (\<lambda>items.
     let gen_data_norm_timeseries = dict_of_items items;
         gen_data = normalize (denorm_fn args) gen_data_norm_timeseries;
         conservation = conservation_loss args gen_data;
         metrics1 = dict_merge (metrics st) (fst conservation);
         loss1 = fadd (loss st) (snd conservation) in
       Inr \<lparr>sd_metrics = AList.update ''loss'' loss1 metrics1,
            sd_gen_data = gen_data,
            sd_target_data = batch_data args,
            sd_gen_data_norm = gen_data_norm_timeseries,
            sd_target_data_norm = full_data_norm args\<rparr>))))))"

section \<open>Finite fields and their real-valued reading\<close>

text \<open>
  A tensor whose entries are all finite is the image of a tensor of reals. The sums
  and the area-weighted mean of such tensors, as real numbers, are used to state and
  prove the conservation properties.
\<close>

definition fin1 :: "real list \<Rightarrow> tensor1" where
  "fin1 = map Fin"

definition fin2 :: "real list list \<Rightarrow> tensor2" where
  "fin2 = map (map Fin)"

definition fin3 :: "real list list list \<Rightarrow> tensor3" where
  "fin3 = map (map (map Fin))"

definition fin4 :: "real list list list list \<Rightarrow> tensor4" where
  "fin4 = map (map (map (map Fin)))"

definition rsum2 :: "real list list \<Rightarrow> real" where
  "rsum2 g = sum_list (map sum_list g)"

text \<open>
  Fields of one shape are given by their values cell by cell: a sample is the grid of
  its cells, and a cell records the area weight of its position and the values there
  of the fields the corrector reads (of the input state and of the generated state).
  \<open>field3 F X\<close> is the tensor (sample, lat, lon) with the entry \<open>F x c\<close> in cell \<open>c\<close> of
  sample \<open>x\<close>, and \<open>field4 Q X\<close> the tensor (sample, lat, lon, level) of the vectors
  \<open>Q c\<close>. Any family of finite tensors of one shape has this form.
\<close>

record cell =
  weight :: real
  gen_ps :: real
  gen_wat :: "real list"
  in_ps :: real
  in_wat :: "real list"
  gen_lhf :: real
  gen_precip :: real
  gen_adv :: real

type_synonym sample = "cell list list"

definition field3 :: "(sample \<Rightarrow> cell \<Rightarrow> real) \<Rightarrow> sample list \<Rightarrow> tensor3" where
  "field3 F X = map (\<lambda>x. map (map (\<lambda>c. Fin (F x c))) x) X"

definition field4 :: "(cell \<Rightarrow> real list) \<Rightarrow> sample list \<Rightarrow> tensor4" where
  "field4 Q X = map (map (map (\<lambda>c. map Fin (Q c)))) X"

definition weights_of :: "sample \<Rightarrow> real list list" where
  "weights_of x = map (map weight) x"

definition cells :: "sample list \<Rightarrow> cell set" where
  "cells X = {c. \<exists>x \<in> set X. \<exists>row \<in> set x. c \<in> set row}"

text \<open>The area-weighted global mean of a quantity over one sample.\<close>

definition gmean :: "(cell \<Rightarrow> real) \<Rightarrow> sample \<Rightarrow> real" where
  "gmean F x = rsum2 (map (map (\<lambda>c. F c * weight c)) x) / rsum2 (weights_of x)"

text \<open>
  The quantities of one column as real numbers, following the formulas of the
  source: the level differences of a vector, the sum over the levels of a product,
  the total water path, the dry-air pressure, and the surface pressure that gives a
  prescribed dry-air pressure.
\<close>

definition rdiff :: "real list \<Rightarrow> real list" where
  "rdiff xs = map2 (\<lambda>a b. b - a) xs (tl xs)"

definition rdot :: "real list \<Rightarrow> real list \<Rightarrow> real" where
  "rdot d q = sum_list (map2 (*) d q)"

definition rtwp :: "real list \<Rightarrow> real list \<Rightarrow> real \<Rightarrow> real list \<Rightarrow> real" where
  "rtwp A B p q = 1 / GRAVITY * rdot (rdiff (map2 (\<lambda>a b. a + p * b) A B)) q"

definition rdry :: "real list \<Rightarrow> real list \<Rightarrow> real \<Rightarrow> real list \<Rightarrow> real" where
  "rdry A B p q = p - GRAVITY * rtwp A B p q"

definition rsolve :: "real list \<Rightarrow> real list \<Rightarrow> real \<Rightarrow> real list \<Rightarrow> real" where
  "rsolve A B dry_air q = (dry_air + rdot (rdiff A) q) / (1 - rdot (rdiff B) q)"

text \<open>
  The dry-air pressures of the two states in a cell, and the error of the global
  mean that the dry-air stage removes from a sample.
\<close>

definition gen_dry :: "real list \<Rightarrow> real list \<Rightarrow> cell \<Rightarrow> real" where
  "gen_dry A B c = rdry A B (gen_ps c) (gen_wat c)"

definition in_dry :: "real list \<Rightarrow> real list \<Rightarrow> cell \<Rightarrow> real" where
  "in_dry A B c = rdry A B (in_ps c) (in_wat c)"

definition dry_air_error :: "real list \<Rightarrow> real list \<Rightarrow> sample \<Rightarrow> real" where
  "dry_air_error A B x = gmean (gen_dry A B) x - gmean (in_dry A B) x"

text \<open>
  The terms of the moisture budget in a cell: the tendency of the total water path
  between the input and the generated state, the evaporation rate, and the factor by
  which the moisture stage scales the precipitation of a sample.
\<close>

definition twp_tendency :: "real \<Rightarrow> real list \<Rightarrow> real list \<Rightarrow> cell \<Rightarrow> real" where
  "twp_tendency TIMESTEP_SECONDS A B c =
     (rtwp A B (gen_ps c) (gen_wat c) - rtwp A B (in_ps c) (in_wat c)) / TIMESTEP_SECONDS"

definition evaporation :: "real \<Rightarrow> cell \<Rightarrow> real" where
  "evaporation LATENT_HEAT_OF_VAPORIZATION c = gen_lhf c / LATENT_HEAT_OF_VAPORIZATION"

definition precipitation_scale :: "real \<Rightarrow> real \<Rightarrow> real list \<Rightarrow> real list \<Rightarrow> sample \<Rightarrow> real" where
  "precipitation_scale TIMESTEP_SECONDS LATENT_HEAT_OF_VAPORIZATION A B x =
     (gmean (evaporation LATENT_HEAT_OF_VAPORIZATION) x
        - gmean (twp_tendency TIMESTEP_SECONDS A B) x) / gmean gen_precip x"

definition new_precipitation ::
  "real \<Rightarrow> real \<Rightarrow> real list \<Rightarrow> real list \<Rightarrow> sample \<Rightarrow> cell \<Rightarrow> real" where
  "new_precipitation TIMESTEP_SECONDS LATENT_HEAT_OF_VAPORIZATION A B x c =
     gen_precip c * precipitation_scale TIMESTEP_SECONDS LATENT_HEAT_OF_VAPORIZATION A B x"

section \<open>Example states\<close>

text \<open>
  A two-level sigma grid (\<open>ak = [0, 500, 1000]\<close>, \<open>bk = [1, 0.5, 0]\<close>), one sample on
  a grid of one row and two columns with the area weights 1 and 3, an input state and
  a generated state; \<open>example_cells\<close> lists the same values cell by cell.
\<close>

definition example_sigma :: SigmaCoordinates where
  "example_sigma = \<lparr>ak = [Fin 0, Fin 500, Fin 1000], bk = [Fin 1, Fin (1 / 2), Fin 0]\<rparr>"

definition example_area :: "real list list" where
  "example_area = [[1, 3]]"

definition example_input :: "tensor3 dict" where
  "example_input =
     [(''PRESsfc'', [[[Fin 1000, Fin 2000]]]),
      (''specific_total_water_0'', [[[Fin 0, Fin 0]]]),
      (''specific_total_water_1'', [[[Fin 0, Fin 1]]])]"

definition example_gen :: "tensor3 dict" where
  "example_gen =
     [(''PRESsfc'', [[[Fin 1200, Fin 1800]]]),
      (''specific_total_water_0'', [[[Fin 1, Fin 0]]]),
      (''specific_total_water_1'', [[[Fin 0, Fin 1]]]),
      (''LHTFLsfc'', [[[Fin 4, Fin 8]]]),
      (''PRATEsfc'', [[[Fin 1, Fin 3]]]),
      (''tendency_of_total_water_path_due_to_advection'', [[[Fin 5, Fin 7]]])]"

definition example_cells :: "sample list" where
  "example_cells =
     [[[\<lparr>weight = 1, gen_ps = 1200, gen_wat = [1, 0], in_ps = 1000, in_wat = [0, 0],
          gen_lhf = 4, gen_precip = 1, gen_adv = 5\<rparr>,
        \<lparr>weight = 3, gen_ps = 1800, gen_wat = [0, 1], in_ps = 2000, in_wat = [0, 1],
          gen_lhf = 8, gen_precip = 3, gen_adv = 7\<rparr>]]]"

text \<open>The generated state without any precipitation.\<close>

definition example_gen_dry :: "tensor3 dict" where
  "example_gen_dry = AList.update ''PRATEsfc'' [[[Fin 0, Fin 0]]] example_gen"

text \<open>
  A one-level grid with \<open>bk = [0, 1]\<close> and a generated column of water only, for
  which \<open>1 - sum_k(bk_diff * wat_k)\<close> is zero.
\<close>

definition example_sigma_one :: SigmaCoordinates where
  "example_sigma_one = \<lparr>ak = [Fin 0, Fin 0], bk = [Fin 0, Fin 1]\<rparr>"

definition example_input_one :: "tensor3 dict" where
  "example_input_one = [(''PS'', [[[Fin 1]]]), (''specific_total_water_0'', [[[Fin 0]]])]"

definition example_gen_one :: "tensor3 dict" where
  "example_gen_one = [(''PS'', [[[Fin 1]]]), (''specific_total_water_0'', [[[Fin 1]]])]"

section \<open>Properties of the packer\<close>

lemma bindE_simps [simp]: "bindE (Inl e) f = Inl e" "bindE (Inr x) f = f x"
  by (simp_all add: bindE_def)

lemma mapE_Inr:
  "(\<And>x. x \<in> set xs \<Longrightarrow> f x = Inr (g x)) \<Longrightarrow> mapE f xs = Inr (map g xs)"
  by (induction xs) simp_all

lemma map_of_dict_merge: "map_of (dict_merge a b) = map_of a ++ map_of (rev b)"
  unfolding dict_merge_def
proof (induction b arbitrary: a)
  case Nil show ?case by simp
next
  case (Cons kv b)
  have "map_of (AList.update (fst kv) (snd kv) a) ++ map_of (rev b)
        = map_of a ++ (map_of (rev b @ [kv]))"
    by (cases kv) (simp add: update_conv' map_add_def fun_eq_iff split: option.splits)
  then show ?case by (simp add: Cons.IH)
qed

lemma map_of_dict_of_items: "map_of (dict_of_items kvs) = map_of (rev kvs)"
  unfolding dict_of_items_def map_of_dict_merge by simp

text \<open>
  Claim C9. A packer built by \<^verbatim>\<open>__init__\<close> holds the attributes \<open>names\<close>,
  \<open>axis_pack\<close> and \<open>axis_unpack\<close> and none called \<open>axis\<close>, so \<^verbatim>\<open>get_state\<close>
  raises \<^verbatim>\<open>AttributeError\<close> for every such packer and no state is ever produced,
  while \<^verbatim>\<open>from_state\<close> looks the key \<open>axis\<close> up and fails on a state without it.
\<close>

theorem get_state_raises:
  assumes "Packer_init names axis axis_pack axis_unpack = Inr p"
  shows "get_state p = Inl (AttributeError ''axis'')
       \<and> from_state [(''names'', PyNames names)] = Inl (KeyError ''axis'')"
  using assms
  by (auto simp: Packer_init_def get_state_def from_state_def getattr_def getitem_def Let_def
      split: option.splits if_splits)

lemma shape_wf_children:
  assumes "wf t" "shape t = n # s"
  shows "length (children t) = n \<and> n > 0 \<and> (\<forall>c \<in> set (children t). wf c \<and> shape c = s)"
proof (cases t)
  case (Sc x) with assms show ?thesis by simp
next
  case (Ten cs)
  with assms obtain c cs' where cs: "cs = c # cs'" by (cases cs) auto
  with assms Ten show ?thesis by (auto simp: list_all_iff)
qed

lemma stack_nat_shape:
  assumes "ts \<noteq> []" "\<forall>t \<in> set ts. wf t \<and> shape t = s" "d \<le> length s"
  shows "wf (stack_nat d ts) \<and> shape (stack_nat d ts) = take d s @ length ts # drop d s"
  using assms
proof (induction d arbitrary: ts s)
  case 0
  then obtain t ts' where "ts = t # ts'" by (cases ts) auto
  with 0 show ?case by (auto simp: list_all_iff)
next
  case (Suc d)
  then obtain n s' where s: "s = n # s'" by (cases s) auto
  have ch: "\<forall>t \<in> set ts. length (children t) = n \<and> n > 0 \<and> (\<forall>c \<in> set (children t). wf c \<and> shape c = s')"
    using Suc.prems(2) s shape_wf_children by blast
  have hd: "hd ts \<in> set ts" using Suc.prems(1) by simp
  then have n: "length (children (hd ts)) = n" "n > 0" using ch by auto
  have col: "\<And>j. j < n \<Longrightarrow> wf (stack_nat d (map (\<lambda>t. children t ! j) ts))
      \<and> shape (stack_nat d (map (\<lambda>t. children t ! j) ts)) = take d s' @ length ts # drop d s'"
  proof -
    fix j assume j: "j < n"
    have "\<forall>t\<in>set (map (\<lambda>t. children t ! j) ts). wf t \<and> shape t = s'"
      using ch j by (auto simp: all_set_conv_all_nth)
    moreover have "map (\<lambda>t. children t ! j) ts \<noteq> []" using Suc.prems(1) by simp
    moreover have "d \<le> length s'" using Suc.prems(3) s by simp
    ultimately show "wf (stack_nat d (map (\<lambda>t. children t ! j) ts))
      \<and> shape (stack_nat d (map (\<lambda>t. children t ! j) ts)) = take d s' @ length ts # drop d s'"
      using Suc.IH[of "map (\<lambda>t. children t ! j) ts" s'] by simp
  qed
  obtain m where m: "n = Suc m" using n(2) by (cases n) auto
  have up: "[0..<Suc m] = 0 # [Suc 0..<Suc m]" by (simp add: upt_rec)
  show ?case
    using col n s m
    by (auto simp: list_all_iff up hd_map simp del: upt_Suc)
qed


lemma mapE_map: "mapE f (map g xs) = mapE (f \<circ> g) xs"
  by (induction xs) (simp_all split: sum.splits)

lemma select_nat_stack_nat:
  assumes "ts \<noteq> []" "\<forall>t \<in> set ts. wf t \<and> shape t = s" "d \<le> length s" "i < length ts"
  shows "select_nat d i (stack_nat d ts) = Inr (ts ! i)"
  using assms
proof (induction d arbitrary: ts s)
  case 0
  then show ?case by simp
next
  case (Suc d)
  then obtain n s' where s: "s = n # s'" by (cases s) auto
  have ch: "\<forall>t \<in> set ts. length (children t) = n \<and> n > 0 \<and> (\<forall>c \<in> set (children t). wf c \<and> shape c = s')"
    using Suc.prems(2) s shape_wf_children by blast
  have hd: "hd ts \<in> set ts" using Suc.prems(1) by simp
  then have n: "length (children (hd ts)) = n" using ch by auto
  have ti: "ts ! i \<in> set ts" using Suc.prems(4) by simp
  have col: "\<And>j. j \<in> set [0..<n] \<Longrightarrow>
      select_nat d i (stack_nat d (map (\<lambda>t. children t ! j) ts)) = Inr (children (ts ! i) ! j)"
  proof -
    fix j assume "j \<in> set [0..<n]"
    then have j: "j < n" by simp
    have "map (\<lambda>t. children t ! j) ts \<noteq> []" using Suc.prems(1) by simp
    moreover have "\<forall>t\<in>set (map (\<lambda>t. children t ! j) ts). wf t \<and> shape t = s'"
      using ch j by (auto simp: all_set_conv_all_nth)
    moreover have "d \<le> length s'" using Suc.prems(3) s by simp
    moreover have "i < length (map (\<lambda>t. children t ! j) ts)" using Suc.prems(4) by simp
    ultimately have "select_nat d i (stack_nat d (map (\<lambda>t. children t ! j) ts))
        = Inr (map (\<lambda>t. children t ! j) ts ! i)"
      by (rule Suc.IH)
    then show "select_nat d i (stack_nat d (map (\<lambda>t. children t ! j) ts)) = Inr (children (ts ! i) ! j)"
      using Suc.prems(4) by simp
  qed
  have "mapE (select_nat d i \<circ> (\<lambda>j. stack_nat d (map (\<lambda>t. children t ! j) ts))) [0..<n]
      = Inr (map (\<lambda>j. children (ts ! i) ! j) [0..<n])"
    by (rule mapE_Inr) (simp add: col)
  moreover have "map (\<lambda>j. children (ts ! i) ! j) [0..<n] = children (ts ! i)"
    using ch ti map_nth[of "children (ts ! i)"] by auto
  moreover have "Ten (children (ts ! i)) = ts ! i"
    using ch ti by (cases "ts ! i") auto
  ultimately show ?case
    by (simp add: n mapE_map)
qed


lemma wrap_dim_stack_select:
  assumes "- int r - 1 \<le> a" "a \<le> int r"
  shows "\<exists>k. k \<le> r \<and> wrap_dim a (Suc r) = Inr k"
  using assms by (auto simp: wrap_dim_def)

lemma map_enumerate_snd: "map (\<lambda>(i, n). f n) (enumerate k xs) = map f xs"
  by (induction xs arbitrary: k) simp_all

text \<open>
  Claim C3. For a packer with a non-empty declared name list, a dictionary whose key
  set is that list, all tensors well-formed and of one shape \<open>s\<close>, and an axis that
  \<^verbatim>\<open>torch.stack\<close> accepts for that rank (\<open>-(r+1) \<le> axis \<le> r\<close>, which presupposes
  at least one tensor), \<^verbatim>\<open>pack\<close> succeeds with a tensor \<open>T\<close> that has the new
  axis at the given position \<open>k\<close> (\<open>axis\<close> itself, or \<open>axis + r + 1\<close> when it is
  negative): the shape of \<open>T\<close> is \<open>s\<close> with the number of names inserted at
  position \<open>k\<close>, and the slice \<open>i\<close> of \<open>T\<close> along position \<open>k\<close> is the tensor
  of the \<open>i\<close>-th declared name. \<^verbatim>\<open>unpack\<close> of \<open>T\<close> at the same axis succeeds, and
  the dictionary it returns equals the original.
\<close>

theorem pack_unpack_round_trip:
  assumes names: "self ''names'' = Some (PyNames names)"
    and keyset: "set (keys d) = set names"
    and shapes: "\<forall>t \<in> snd ` set d. wf t \<and> shape t = s"
    and ne: "names \<noteq> []"
    and ax: "- int (length s) - 1 \<le> axis" "axis \<le> int (length s)"
    and pos: "k = nat (if axis < 0 then axis + int (length s) + 1 else axis)"
  shows "\<exists>T d'. pack self d (Some axis) = Inr T \<and> unpack self T (Some axis) = Inr d'
           \<and> map_of d' = map_of d
           \<and> wf T \<and> shape T = take k s @ length names # drop k s
           \<and> (\<forall>i < length names. select_nat k i T = getitem d (names ! i)
                                  \<and> select T axis i = getitem d (names ! i))"
proof -
  define ts where "ts = map (\<lambda>n. the (map_of d n)) names"
  have look: "\<And>n. n \<in> set names \<Longrightarrow> \<exists>t. map_of d n = Some t \<and> wf t \<and> shape t = s"
  proof -
    fix n assume "n \<in> set names"
    then have "n \<in> fst ` set d" using keyset by (simp add: keys_def)
    then obtain t where t: "map_of d n = Some t"
      by (metis domD dom_map_of_conv_image_fst)
    then have "(n, t) \<in> set d" by (rule map_of_SomeD)
    then have "t \<in> snd ` set d" by force
    with shapes t show "\<exists>t. map_of d n = Some t \<and> wf t \<and> shape t = s" by blast
  qed
  have get: "mapE (getitem d) names = Inr ts"
    unfolding ts_def
  proof (rule mapE_Inr)
    fix n assume "n \<in> set names"
    from look[OF this] show "getitem d n = Inr (the (map_of d n))"
      by (auto simp: getitem_def)
  qed
  have tsne: "ts \<noteq> []" using ne by (simp add: ts_def)
  have look': "\<And>n. n \<in> set names \<Longrightarrow> wf (the (map_of d n)) \<and> shape (the (map_of d n)) = s"
  proof -
    fix n assume "n \<in> set names"
    from look[OF this] show "wf (the (map_of d n)) \<and> shape (the (map_of d n)) = s" by auto
  qed
  have tsall: "\<forall>t \<in> set ts. wf t \<and> shape t = s"
    using look' by (auto simp: ts_def)
  have hd: "hd ts \<in> set ts" using tsne by simp
  then have nd: "ndim (hd ts) = length s" using tsall by (simp add: ndim_def)
  have k: "k \<le> length s" "wrap_dim axis (Suc (length s)) = Inr k"
    using ax by (auto simp: pos wrap_dim_def)
  define T where "T = stack_nat k ts"
  have st: "stack ts axis = Inr T"
    using tsne tsall hd k by (simp add: stack_def nd T_def list_all_iff)
  have p: "pack self d (Some axis) = Inr T"
    by (simp add: pack_def getattr_def names as_names_def pack_names_def get st)
  have shT: "wf T" "shape T = take k s @ length names # drop k s"
    using stack_nat_shape[OF tsne tsall k(1)] by (simp_all add: T_def ts_def)
  have ndT: "ndim T = Suc (length s)"
    using k(1) by (simp add: ndim_def shT(2))
  have seln: "\<And>i. i < length ts \<Longrightarrow> select_nat k i T = Inr (ts ! i)"
    using select_nat_stack_nat[OF tsne tsall k(1), folded T_def] by simp
  have sel: "\<And>i. i < length ts \<Longrightarrow> select T axis i = Inr (ts ! i)"
    using seln k(2) by (simp add: select_def ndT)
  have gi: "\<And>i. i < length names \<Longrightarrow> getitem d (names ! i) = Inr (ts ! i)"
  proof -
    fix i assume i: "i < length names"
    then have "names ! i \<in> set names" by simp
    from look[OF this] show "getitem d (names ! i) = Inr (ts ! i)"
      using i by (auto simp: getitem_def ts_def)
  qed
  have slices: "\<forall>i < length names. select_nat k i T = getitem d (names ! i)
                                  \<and> select T axis i = getitem d (names ! i)"
    using seln sel gi by (simp add: ts_def)
  have items: "mapE (\<lambda>(i, n). bindE (select T axis i) (\<lambda>t. Inr (n, t))) (enumerate 0 names)
      = Inr (map (\<lambda>(i, n). (n, the (map_of d n))) (enumerate 0 names))"
  proof (rule mapE_Inr)
    fix x assume x: "x \<in> set (enumerate 0 names)"
    obtain i n where xin: "x = (i, n)" by (cases x)
    with x have "i < length names" "n = names ! i"
      by (auto simp: in_set_enumerate_eq)
    then show "(case x of (i, n) \<Rightarrow> bindE (select T axis i) (\<lambda>t. Inr (n, t)))
        = Inr (case x of (i, n) \<Rightarrow> (n, the (map_of d n)))"
      using sel[of i] by (simp add: xin ts_def)
  qed
  define d' where "d' = dict_of_items (map (\<lambda>(i, n). (n, the (map_of d n))) (enumerate 0 names))"
  have u: "unpack self T (Some axis) = Inr d'"
    using k(2) by (simp add: unpack_def ndT getattr_def names as_names_def unpack_names_def items d'_def)
  have kv: "map (\<lambda>(i, n). (n, the (map_of d n))) (enumerate 0 names)
      = map (\<lambda>n. (n, the (map_of d n))) names"
    by (rule map_enumerate_snd)
  have "map_of d' = map_of d"
  proof
    fix x
    show "map_of d' x = map_of d x"
    proof (cases "x \<in> set names")
      case True
      then show ?thesis
        using look[OF True]
        by (auto simp: d'_def map_of_dict_of_items kv rev_map map_of_map_restrict restrict_map_def)
    next
      case False
      then have "map_of d x = None" using keyset by (simp add: keys_def map_of_eq_None_iff)
      with False show ?thesis
        by (simp add: d'_def map_of_dict_of_items kv rev_map map_of_map_restrict restrict_map_def)
    qed
  qed
  with p u shT slices show ?thesis by blast
qed


theorem get_state_raises_witness:
  "Packer_init [''PRESsfc'', ''PRATEsfc''] (Some (- 3)) None None
     = Inr (Map.empty(''names'' \<mapsto> PyNames [''PRESsfc'', ''PRATEsfc''],
                      ''axis_pack'' \<mapsto> PyInt (- 3), ''axis_unpack'' \<mapsto> PyInt (- 3)))
   \<and> get_state (Map.empty(''names'' \<mapsto> PyNames [''PRESsfc'', ''PRATEsfc''],
                      ''axis_pack'' \<mapsto> PyInt (- 3), ''axis_unpack'' \<mapsto> PyInt (- 3)))
     = Inl (AttributeError ''axis'')"
proof -
  have h: "Packer_init [''PRESsfc'', ''PRATEsfc''] (Some (- 3)) None None
     = Inr (Map.empty(''names'' \<mapsto> PyNames [''PRESsfc'', ''PRATEsfc''],
                      ''axis_pack'' \<mapsto> PyInt (- 3), ''axis_unpack'' \<mapsto> PyInt (- 3)))"
    by (simp add: Packer_init_def)
  from get_state_raises[OF h] h show ?thesis by simp
qed

theorem pack_unpack_round_trip_witness:
  "\<exists>T d'. pack (Map.empty(''names'' \<mapsto> PyNames [''a'', ''b'']))
              [(''b'', Ten [Sc (4::int), Sc 5, Sc 6]), (''a'', Ten [Sc 1, Sc 2, Sc 3])] (Some (- 1)) = Inr T
     \<and> unpack (Map.empty(''names'' \<mapsto> PyNames [''a'', ''b''])) T (Some (- 1)) = Inr d'
     \<and> map_of d' = map_of [(''b'', Ten [Sc 4, Sc 5, Sc 6]), (''a'', Ten [Sc 1, Sc 2, Sc 3])]
     \<and> shape T = [3, 2]
     \<and> select_nat 1 0 T = Inr (Ten [Sc 1, Sc 2, Sc 3])
     \<and> select_nat 1 1 T = Inr (Ten [Sc 4, Sc 5, Sc 6])"
proof -
  from pack_unpack_round_trip[where self = "Map.empty(''names'' \<mapsto> PyNames [''a'', ''b''])"
      and names = "[''a'', ''b'']" and s = "[3]" and axis = "- 1" and k = 1
      and d = "[(''b'', Ten [Sc (4::int), Sc 5, Sc 6]), (''a'', Ten [Sc 1, Sc 2, Sc 3])]"]
  obtain T d' where
    r: "pack (Map.empty(''names'' \<mapsto> PyNames [''a'', ''b'']))
              [(''b'', Ten [Sc (4::int), Sc 5, Sc 6]), (''a'', Ten [Sc 1, Sc 2, Sc 3])] (Some (- 1)) = Inr T"
       "unpack (Map.empty(''names'' \<mapsto> PyNames [''a'', ''b''])) T (Some (- 1)) = Inr d'"
       "map_of d' = map_of [(''b'', Ten [Sc 4, Sc 5, Sc 6]), (''a'', Ten [Sc 1, Sc 2, Sc 3])]"
       "shape T = take 1 [3] @ length [''a'', ''b''] # drop 1 [3]"
       "\<forall>i < length [''a'', ''b'']. select_nat 1 i T
           = getitem [(''b'', Ten [Sc (4::int), Sc 5, Sc 6]), (''a'', Ten [Sc 1, Sc 2, Sc 3])] ([''a'', ''b''] ! i)
         \<and> select T (- 1) i
           = getitem [(''b'', Ten [Sc (4::int), Sc 5, Sc 6]), (''a'', Ten [Sc 1, Sc 2, Sc 3])] ([''a'', ''b''] ! i)"
    by (auto simp: keys_def)
  from r(5) have s0: "select_nat 1 0 T = Inr (Ten [Sc 1, Sc 2, Sc 3])"
    and s1: "select_nat 1 1 T = Inr (Ten [Sc 4, Sc 5, Sc 6])"
    by (auto simp: getitem_def)
  from r(4) have sh: "shape T = [3, 2]" by simp
  show ?thesis
    by (intro exI[of _ T] exI[of _ d'] conjI) (rule r(1), rule r(2), rule r(3), rule sh, rule s0, rule s1)
qed

lemma pack_example_positions:
  "pack (Map.empty(''names'' \<mapsto> PyNames [''a'', ''b'']))
      [(''b'', Ten [Sc (4::int), Sc 5, Sc 6]), (''a'', Ten [Sc 1, Sc 2, Sc 3])] (Some (- 1))
     = Inr (Ten [Ten [Sc 1, Sc 4], Ten [Sc 2, Sc 5], Ten [Sc 3, Sc 6]])
   \<and> pack (Map.empty(''names'' \<mapsto> PyNames [''a'', ''b'']))
      [(''b'', Ten [Sc (4::int), Sc 5, Sc 6]), (''a'', Ten [Sc 1, Sc 2, Sc 3])] (Some 0)
     = Inr (Ten [Ten [Sc 1, Sc 2, Sc 3], Ten [Sc 4, Sc 5, Sc 6]])"
  by code_simp

section \<open>Properties of the ClimateData view\<close>

text \<open>
  Claim C4 says that a write through a setter of \<^verbatim>\<open>ClimateData(m)\<close> changes the
  caller's mapping \<open>m\<close>. It does not: the caller's mapping still holds the old tensor,
  the new one is in the dictionary of the view.
\<close>

theorem view_write_counterexample:
  "assign_through_view [(''PRESsfc'', 1::int)] CLIMATE_FIELD_NAME_PREFIXES ''surface_pressure'' 2
     = Inr ([(''PRESsfc'', 1)], [(''PRESsfc'', 2)])"
  by (simp add: assign_through_view_def ClimateData_new_def ClimateData_setattr_def
      ClimateData_set_def ClimateData_init_def CLIMATE_FIELD_NAME_PREFIXES_def getitem_def keys_def)

text \<open>
  Claim C4, amended. The view holds \<^verbatim>\<open>dict(climate_data)\<close>, a dictionary of its own
  with the items of the caller's mapping. A write through a setter stores the new
  tensor under the first alias that is a key, in the view's dictionary (the one
  \<^verbatim>\<open>data\<close> returns): that entry is replaced, the other entries and the order of
  the keys stay, and the caller's mapping is left as it was. When no alias of the
  field is a key, or the field has no aliases, the write fails with
  \<^verbatim>\<open>KeyError\<close>.
\<close>

theorem view_write_keeps_caller_mapping:
  "(map_of pf name = Some ps \<and> find (\<lambda>prefix. prefix \<in> set (keys m)) ps = Some p
      \<longrightarrow> assign_through_view m pf name x = Inr (m, AList.update p x m)
          \<and> map_of (AList.update p x m) = (map_of m)(p \<mapsto> x)
          \<and> keys (AList.update p x m) = keys m)
   \<and> (map_of pf name = Some ps \<and> find (\<lambda>prefix. prefix \<in> set (keys m)) ps = None
      \<longrightarrow> assign_through_view m pf name x = Inl (KeyError name))
   \<and> (map_of pf name = None \<longrightarrow> assign_through_view m pf name x = Inl (KeyError name))"
proof (intro conjI impI)
  assume a: "map_of pf name = Some ps \<and> find (\<lambda>prefix. prefix \<in> set (keys m)) ps = Some p"
  then show "assign_through_view m pf name x = Inr (m, AList.update p x m)"
    by (simp add: assign_through_view_def ClimateData_new_def ClimateData_setattr_def
        ClimateData_set_def ClimateData_init_def getitem_def)
  show "map_of (AList.update p x m) = (map_of m)(p \<mapsto> x)"
    by (rule update_conv')
  from a have "p \<in> set (keys m)" by (auto simp: find_Some_iff)
  then show "keys (AList.update p x m) = keys m"
    by (simp add: keys_def update_keys)
next
  assume "map_of pf name = Some ps \<and> find (\<lambda>prefix. prefix \<in> set (keys m)) ps = None"
  then show "assign_through_view m pf name x = Inl (KeyError name)"
    by (simp add: assign_through_view_def ClimateData_new_def ClimateData_setattr_def
        ClimateData_set_def ClimateData_init_def getitem_def)
next
  assume "map_of pf name = None"
  then show "assign_through_view m pf name x = Inl (KeyError name)"
    by (simp add: assign_through_view_def ClimateData_new_def ClimateData_setattr_def
        ClimateData_set_def ClimateData_init_def getitem_def)
qed

theorem view_write_keeps_caller_mapping_witness:
  "assign_through_view [(''PS'', 7::int), (''surface_precipitation_rate'', 3)]
        CLIMATE_FIELD_NAME_PREFIXES ''precipitation_rate'' 4
      = Inr ([(''PS'', 7), (''surface_precipitation_rate'', 3)],
             [(''PS'', 7), (''surface_precipitation_rate'', 4)])
   \<and> assign_through_view [(''PS'', 7::int), (''surface_precipitation_rate'', 3)]
        CLIMATE_FIELD_NAME_PREFIXES ''latent_heat_flux'' 4
      = Inl (KeyError ''latent_heat_flux'')
   \<and> assign_through_view [(''PS'', 7::int), (''surface_precipitation_rate'', 3)]
        CLIMATE_FIELD_NAME_PREFIXES ''PS'' 4
      = Inl (KeyError ''PS'')"
proof -
  let ?m = "[(''PS'', 7::int), (''surface_precipitation_rate'', 3)]"
  have a: "map_of CLIMATE_FIELD_NAME_PREFIXES ''precipitation_rate''
      = Some [''PRATEsfc'', ''surface_precipitation_rate'']"
    by (simp add: CLIMATE_FIELD_NAME_PREFIXES_def)
  have b: "find (\<lambda>prefix. prefix \<in> set (keys ?m))
        [''PRATEsfc'', ''surface_precipitation_rate''] = Some ''surface_precipitation_rate''"
    by (simp add: keys_def)
  have c: "map_of CLIMATE_FIELD_NAME_PREFIXES ''latent_heat_flux'' = Some [''LHTFLsfc'', ''LHFLX'']"
    by (simp add: CLIMATE_FIELD_NAME_PREFIXES_def)
  have d: "find (\<lambda>prefix. prefix \<in> set (keys ?m)) [''LHTFLsfc'', ''LHFLX''] = None"
    by (simp add: keys_def)
  have e: "map_of CLIMATE_FIELD_NAME_PREFIXES ''PS'' = None"
    by (simp add: CLIMATE_FIELD_NAME_PREFIXES_def)
  from view_write_keeps_caller_mapping[of CLIMATE_FIELD_NAME_PREFIXES "''precipitation_rate''"
      "[''PRATEsfc'', ''surface_precipitation_rate'']" ?m "''surface_precipitation_rate''" 4] a b
  have 1: "assign_through_view ?m CLIMATE_FIELD_NAME_PREFIXES ''precipitation_rate'' 4
      = Inr (?m, [(''PS'', 7), (''surface_precipitation_rate'', 4)])"
    by simp
  from view_write_keeps_caller_mapping[of CLIMATE_FIELD_NAME_PREFIXES "''latent_heat_flux''"
      "[''LHTFLsfc'', ''LHFLX'']" ?m _ 4] c d
  have 2: "assign_through_view ?m CLIMATE_FIELD_NAME_PREFIXES ''latent_heat_flux'' 4
      = Inl (KeyError ''latent_heat_flux'')"
    by simp
  from view_write_keeps_caller_mapping[of CLIMATE_FIELD_NAME_PREFIXES "''PS''" _ ?m _ 4] e
  have 3: "assign_through_view ?m CLIMATE_FIELD_NAME_PREFIXES ''PS'' 4 = Inl (KeyError ''PS'')"
    by simp
  from 1 2 3 show ?thesis by simp
qed

section \<open>Error behaviour of the dry-air stage\<close>

lemma bindE_neq:
  "m \<noteq> Inl E \<Longrightarrow> (\<And>x. m = Inr x \<Longrightarrow> k x \<noteq> Inl E) \<Longrightarrow> bindE m k \<noteq> Inl E"
  by (cases m) simp_all

lemma mapE_neq: "(\<And>x. f x \<noteq> Inl E) \<Longrightarrow> mapE f xs \<noteq> Inl E"
  by (induction xs) (auto split: sum.splits)

lemma zipE_neq:
  "E \<noteq> RuntimeError ''The size of tensor a must match the size of tensor b''
   \<Longrightarrow> (\<And>x y. f x y \<noteq> Inl E) \<Longrightarrow> zipE f xs ys \<noteq> Inl E"
  by (auto simp: zipE_def intro!: mapE_neq)

lemma getitem_neq: "getitem d k \<noteq> Inl (ValueError msg)"
  by (simp add: getitem_def split: option.splits)

lemma ew1_neq: "ew1 f xs ys \<noteq> Inl (ValueError msg)"
  unfolding ew1_def by (rule zipE_neq) simp_all

lemma ew2_neq: "ew2 f xs ys \<noteq> Inl (ValueError msg)"
  unfolding ew2_def by (rule zipE_neq) (simp_all add: ew1_neq)

lemma ew3_neq: "ew3 f xs ys \<noteq> Inl (ValueError msg)"
  unfolding ew3_def by (rule zipE_neq) (simp_all add: ew2_neq)

lemma sub_bcast_neq: "sub_bcast t e \<noteq> Inl (ValueError msg)"
  unfolding sub_bcast_def by (rule zipE_neq) simp_all

lemma level_sum_neq: "level_sum d wat \<noteq> Inl (ValueError msg)"
  unfolding level_sum_def
  by (intro mapE_neq bindE_neq ew1_neq) simp

lemma weighted_mean_neq: "weighted_mean t w \<noteq> Inl (ValueError msg)"
  by (simp add: weighted_mean_def split: sum.splits)

lemma ClimateData_get_neq: "ClimateData_get self name \<noteq> Inl (ValueError msg)"
  unfolding ClimateData_get_def
  by (intro bindE_neq getitem_neq) (simp add: getitem_neq split: option.splits)

lemma ClimateData_set_neq: "ClimateData_set self name v \<noteq> Inl (ValueError msg)"
  unfolding ClimateData_set_def
  by (intro bindE_neq getitem_neq) (simp split: option.splits)

lemma stack_last_neq: "stack_last ts \<noteq> Inl (ValueError msg)"
  by (simp add: stack_last_def)

lemma extract_prefix_levels_neq: "extract_prefix_levels self prefix \<noteq> Inl (ValueError msg)"
proof -
  have "bindE (mapE (getitem (data self)) ns) stack_last \<noteq> Inl (ValueError msg)" for ns
    by (intro bindE_neq mapE_neq getitem_neq stack_last_neq)
  then show ?thesis
    by (simp add: extract_prefix_levels_def Let_def)
qed

lemma extract_levels_neq: "extract_levels self name ps \<noteq> Inl (ValueError msg)"
  using extract_prefix_levels_neq[of self _ msg]
  by (induction ps) (auto split: sum.splits error.splits)

lemma specific_total_water_neq: "specific_total_water self \<noteq> Inl (ValueError msg)"
  unfolding specific_total_water_def
  by (intro bindE_neq getitem_neq extract_levels_neq)

lemma column_integral_neq: "column_integral a b ps q \<noteq> Inl (ValueError msg)"
  unfolding column_integral_def
  by (intro bindE_neq ew1_neq) simp

lemma vertical_integral_neq: "vertical_integral q ps a b \<noteq> Inl (ValueError msg)"
  unfolding vertical_integral_def
  by (intro zipE_neq column_integral_neq) simp_all

lemma dry_air_neq:
  "msg \<noteq> ''Number of vertical levels in ak, bk, and specific_total_water mustbe the same.''
   \<Longrightarrow> surface_pressure_due_to_dry_air q ps a b \<noteq> Inl (ValueError msg)"
proof -
  assume m: "msg \<noteq> ''Number of vertical levels in ak, bk, and specific_total_water mustbe the same.''"
  have "bindE (vertical_integral q ps a b) (ew3 (\<lambda>p w. fsub p (fmul (Fin GRAVITY) w)) ps)
      \<noteq> Inl (ValueError msg)"
    by (intro bindE_neq vertical_integral_neq ew3_neq)
  with m show ?thesis
    by (simp add: surface_pressure_due_to_dry_air_def Let_def)
qed

lemma dry_air_of_neq:
  "msg \<noteq> ''Number of vertical levels in ak, bk, and specific_total_water mustbe the same.''
   \<Longrightarrow> dry_air_of self sigma \<noteq> Inl (ValueError msg)"
  unfolding dry_air_of_def surface_pressure_def
  by (intro bindE_neq specific_total_water_neq ClimateData_get_neq dry_air_neq)

lemma surface_pressure_resolution:
  "surface_pressure (ClimateData_init input_data CLIMATE_FIELD_NAME_PREFIXES) =
     (if ''PRESsfc'' \<in> set (keys input_data) then getitem input_data ''PRESsfc''
      else if ''PS'' \<in> set (keys input_data) then getitem input_data ''PS''
      else Inl (KeyError ''surface_pressure''))"
  by (simp add: surface_pressure_def ClimateData_get_def ClimateData_init_def
      CLIMATE_FIELD_NAME_PREFIXES_def getitem_def)

lemma getitem_present: "k \<in> set (keys d) \<Longrightarrow> \<exists>v. getitem d k = Inr v"
  by (auto simp: getitem_def keys_def map_of_eq_None_iff split: option.splits)



section \<open>Conservation properties of the corrector\<close>

lemma fsum_Fin: "fsum (map Fin xs) = Fin (sum_list xs)"
  by (induction xs) (simp_all add: fsum_def)

lemma fsum_Fin': "fsum (map (\<lambda>c. Fin (f c)) xs) = Fin (sum_list (map f xs))"
  using fsum_Fin[of "map f xs"] by (simp add: comp_def)

lemma zipE_same: "zipE f (map a xs) (map b xs) = mapE (\<lambda>x. f (a x) (b x)) xs"
  by (simp add: zipE_def zip_map_map zip_same_conv_map mapE_map comp_def)

lemma ew1_same:
  assumes "\<And>c. c \<in> set xs \<Longrightarrow> f (Fin (a c)) (Fin (b c)) = Fin (h c)"
  shows "ew1 f (map (\<lambda>c. Fin (a c)) xs) (map (\<lambda>c. Fin (b c)) xs) = Inr (map (\<lambda>c. Fin (h c)) xs)"
  unfolding ew1_def zipE_same by (rule mapE_Inr) (simp add: assms)

lemma ew2_same:
  assumes "\<And>c row. row \<in> set x \<Longrightarrow> c \<in> set row \<Longrightarrow> f (Fin (a c)) (Fin (b c)) = Fin (h c)"
  shows "ew2 f (map (map (\<lambda>c. Fin (a c))) x) (map (map (\<lambda>c. Fin (b c))) x)
      = Inr (map (map (\<lambda>c. Fin (h c))) x)"
  unfolding ew2_def zipE_same by (rule mapE_Inr) (simp add: assms ew1_same)

lemma ew3_field:
  assumes "\<And>x row c. x \<in> set X \<Longrightarrow> row \<in> set x \<Longrightarrow> c \<in> set row
      \<Longrightarrow> f (Fin (F1 x c)) (Fin (F2 x c)) = Fin (H x c)"
  shows "ew3 f (field3 F1 X) (field3 F2 X) = Inr (field3 H X)"
  unfolding ew3_def field3_def zipE_same by (rule mapE_Inr) (simp add: assms ew2_same)

lemma map3_field:
  assumes "\<And>x row c. x \<in> set X \<Longrightarrow> row \<in> set x \<Longrightarrow> c \<in> set row \<Longrightarrow> u (Fin (F x c)) = Fin (H x c)"
  shows "map3 u (field3 F X) = field3 H X"
  by (simp add: map3_def field3_def assms)

lemma sum2_field: "sum2 (map (map (\<lambda>c. Fin (f c))) x) = Fin (rsum2 (map (map f) x))"
proof -
  have "map fsum (map (map (\<lambda>c. Fin (f c))) x) = map (\<lambda>row. Fin (sum_list (map f row))) x"
    by (simp add: fsum_Fin')
  then have "fsum (map fsum (map (map (\<lambda>c. Fin (f c))) x)) = Fin (sum_list (map (\<lambda>row. sum_list (map f row)) x))"
    by (simp only: fsum_Fin')
  then show ?thesis by (simp add: sum2_def rsum2_def comp_def)
qed

lemma weighted_mean_field:
  assumes w: "\<And>x. x \<in> set X \<Longrightarrow> weights_of x = w" and nz: "rsum2 w \<noteq> 0"
  shows "weighted_mean (field3 F X) (fin2 w) = Inr (map (\<lambda>x. Fin (gmean (F x) x)) X)"
proof -
  have "mapE ((\<lambda>g. bindE (ew2 fmul g (fin2 w)) (\<lambda>p. Inr (fdiv (sum2 p) (sum2 (fin2 w)))))
          \<circ> (\<lambda>x. map (map (\<lambda>c. Fin (F x c))) x)) X
      = Inr (map (\<lambda>x. Fin (gmean (F x) x)) X)"
  proof (rule mapE_Inr)
    fix x assume x: "x \<in> set X"
    have fw: "fin2 w = map (map (\<lambda>c. Fin (weight c))) x"
      using w[OF x, symmetric] by (simp add: fin2_def weights_of_def comp_def)
    have "ew2 fmul (map (map (\<lambda>c. Fin (F x c))) x) (map (map (\<lambda>c. Fin (weight c))) x)
        = Inr (map (map (\<lambda>c. Fin (F x c * weight c))) x)"
      by (rule ew2_same) simp
    moreover have "sum2 (map (map (\<lambda>c. Fin (weight c))) x) = Fin (rsum2 w)"
      using w[OF x] by (simp add: sum2_field weights_of_def)
    ultimately show "((\<lambda>g. bindE (ew2 fmul g (fin2 w)) (\<lambda>p. Inr (fdiv (sum2 p) (sum2 (fin2 w)))))
          \<circ> (\<lambda>x. map (map (\<lambda>c. Fin (F x c))) x)) x = Inr (Fin (gmean (F x) x))"
      using nz w[OF x] by (simp add: fw sum2_field gmean_def)
  qed
  then show ?thesis
    by (simp add: weighted_mean_def field3_def mapE_map)
qed

lemma ew1_samples:
  assumes "\<And>x. x \<in> set X \<Longrightarrow> f (Fin (a x)) (Fin (b x)) = Fin (h x)"
  shows "ew1 f (map (\<lambda>x. Fin (a x)) X) (map (\<lambda>x. Fin (b x)) X) = Inr (map (\<lambda>x. Fin (h x)) X)"
  by (rule ew1_same) (simp add: assms)

lemma sub_bcast_field:
  "sub_bcast (field3 F X) (map (\<lambda>x. Fin (e x)) X) = Inr (field3 (\<lambda>x c. F x c - e x) X)"
  unfolding sub_bcast_def field3_def zipE_same by (rule mapE_Inr) simp

lemma mul_bcast_field:
  "mul_bcast (field3 F X) (map (\<lambda>x. Fin (e x)) X) = Inr (field3 (\<lambda>x c. F x c * e x) X)"
  unfolding mul_bcast_def field3_def zipE_same by (rule mapE_Inr) simp


lemma GRAVITY_nz: "GRAVITY \<noteq> 0"
  by (simp add: GRAVITY_def)

lemma map2_Fin:
  assumes "\<And>x y. f (Fin x) (Fin y) = Fin (g x y)"
  shows "map2 f (map Fin xs) (map Fin ys) = map Fin (map2 g xs ys)"
proof (induction xs arbitrary: ys)
  case Nil show ?case by simp
next
  case (Cons x xs)
  show ?case by (cases ys) (simp_all add: assms Cons.IH)
qed

lemma diff1_Fin: "diff1 (map Fin xs) = map Fin (rdiff xs)"
  unfolding diff1_def rdiff_def map_tl[symmetric]
  by (rule map2_Fin) simp

lemma length_rdiff: "length (rdiff xs) = length xs - 1"
  by (simp add: rdiff_def)

lemma ew1_len: "length xs = length ys \<Longrightarrow> ew1 f xs ys = Inr (map2 f xs ys)"
proof -
  assume l: "length xs = length ys"
  have "mapE (\<lambda>(x, y). Inr (f x y)) (zip xs ys) = Inr (map (\<lambda>(x, y). f x y) (zip xs ys))"
    by (rule mapE_Inr) auto
  with l show ?thesis by (simp add: ew1_def zipE_def)
qed

lemma ew1_Fin:
  assumes "length xs = length ys" "\<And>x y. f (Fin x) (Fin y) = Fin (g x y)"
  shows "ew1 f (map Fin xs) (map Fin ys) = Inr (map Fin (map2 g xs ys))"
  using assms(1) by (simp add: ew1_len map2_Fin[of f g, OF assms(2)])

lemma column_integral_Fin:
  assumes "length A = Suc L" "length B = Suc L" "length q = L"
  shows "column_integral (fin1 A) (fin1 B) (Fin p) (map Fin q) = Inr (Fin (rtwp A B p q))"
proof -
  have 1: "ew1 (\<lambda>a b. fadd a (fmul (Fin p) b)) (map Fin A) (map Fin B)
      = Inr (map Fin (map2 (\<lambda>a b. a + p * b) A B))"
    by (rule ew1_Fin) (simp_all add: assms)
  have 2: "ew1 fmul (map Fin (rdiff (map2 (\<lambda>a b. a + p * b) A B))) (map Fin q)
      = Inr (map Fin (map2 (*) (rdiff (map2 (\<lambda>a b. a + p * b) A B)) q))"
    by (rule ew1_Fin) (simp_all add: assms length_rdiff)
  have 3: "fsum (map Fin (map2 (*) (rdiff (map2 (\<lambda>a b. a + p * b) A B)) q))
      = Fin (rdot (rdiff (map2 (\<lambda>a b. a + p * b) A B)) q)"
    by (simp only: fsum_Fin rdot_def)
  show ?thesis
    by (simp only: column_integral_def fin1_def 1 bindE_simps diff1_Fin 2 3 rtwp_def)
      (simp add: GRAVITY_nz)
qed

lemma zipE1_same:
  assumes "\<And>c. c \<in> set row \<Longrightarrow> f (a c) (b c) = Inr (h c)"
  shows "zipE f (map a row) (map b row) = Inr (map h row)"
  unfolding zipE_same by (rule mapE_Inr) (simp add: assms)

lemma zipE2_same:
  assumes "\<And>row c. row \<in> set x \<Longrightarrow> c \<in> set row \<Longrightarrow> f (a c) (b c) = Inr (h c)"
  shows "zipE (zipE f) (map (map a) x) (map (map b) x) = Inr (map (map h) x)"
  by (rule zipE1_same) (simp add: assms zipE1_same)

lemma zipE3_same:
  assumes "\<And>x row c. x \<in> set X \<Longrightarrow> row \<in> set x \<Longrightarrow> c \<in> set row
      \<Longrightarrow> f (a x c) (b x c) = Inr (h x c)"
  shows "zipE (zipE (zipE f)) (map (\<lambda>x. map (map (a x)) x) X) (map (\<lambda>x. map (map (b x)) x) X)
      = Inr (map (\<lambda>x. map (map (h x)) x) X)"
  by (rule zipE1_same) (simp add: assms zipE2_same)

lemma mapE3_same:
  assumes "\<And>x row c. x \<in> set X \<Longrightarrow> row \<in> set x \<Longrightarrow> c \<in> set row \<Longrightarrow> f (a c) = Inr (h c)"
  shows "mapE (mapE (mapE f)) (map (map (map a)) X) = Inr (map (map (map h)) X)"
proof -
  have 1: "mapE f (map a row) = Inr (map h row)"
    if "x \<in> set X" "row \<in> set x" for x row
    unfolding mapE_map by (rule mapE_Inr) (simp add: assms[OF that])
  have 2: "mapE (mapE f) (map (map a) x) = Inr (map (map h) x)" if "x \<in> set X" for x
    unfolding mapE_map by (rule mapE_Inr) (simp add: 1[OF that])
  show ?thesis
    unfolding mapE_map by (rule mapE_Inr) (simp add: 2)
qed

lemma in_cells: "x \<in> set X \<Longrightarrow> row \<in> set x \<Longrightarrow> c \<in> set row \<Longrightarrow> c \<in> cells X"
  by (auto simp: cells_def)

lemma vertical_integral_field:
  assumes "length A = Suc L" "length B = Suc L"
    and "\<And>c. c \<in> cells X \<Longrightarrow> length (Q c) = L"
  shows "vertical_integral (field4 Q X) (field3 P X) (fin1 A) (fin1 B)
      = Inr (field3 (\<lambda>x c. rtwp A B (P x c) (Q c)) X)"
proof -
  have "zipE (zipE (zipE (column_integral (fin1 A) (fin1 B))))
          (map (\<lambda>x. map (map (\<lambda>c. Fin (P x c))) x) X)
          (map (\<lambda>x. map (map (\<lambda>c. map Fin (Q c))) x) X)
      = Inr (map (\<lambda>x. map (map (\<lambda>c. Fin (rtwp A B (P x c) (Q c)))) x) X)"
    by (rule zipE3_same) (simp add: column_integral_Fin[OF assms(1,2)] assms(3) in_cells)
  then show ?thesis
    by (simp add: vertical_integral_def field3_def field4_def)
qed

lemma level_sum_field:
  assumes "\<And>c. c \<in> cells X \<Longrightarrow> length (Q c) = length d"
  shows "level_sum (map Fin d) (field4 Q X) = Inr (field3 (\<lambda>x c. rdot d (Q c)) X)"
proof -
  have cell: "bindE (ew1 fmul (map Fin d) (map Fin (Q c))) (\<lambda>p. Inr (fsum p)) = Inr (Fin (rdot d (Q c)))"
    if "c \<in> cells X" for c
  proof -
    have l: "length d = length (Q c)" using assms[OF that] by simp
    have "ew1 fmul (map Fin d) (map Fin (Q c)) = Inr (map Fin (map2 (*) d (Q c)))"
      by (rule ew1_Fin) (simp_all add: l)
    moreover have "fsum (map Fin (map2 (*) d (Q c))) = Fin (rdot d (Q c))"
      by (simp only: fsum_Fin rdot_def)
    ultimately show ?thesis by (simp only: bindE_simps)
  qed
  have "mapE (mapE (mapE (\<lambda>q. bindE (ew1 fmul (map Fin d) q) (\<lambda>p. Inr (fsum p)))))
          (map (map (map (\<lambda>c. map Fin (Q c)))) X)
      = Inr (map (map (map (\<lambda>c. Fin (rdot d (Q c))))) X)"
    by (rule mapE3_same) (simp add: cell in_cells)
  then show ?thesis
    by (simp add: level_sum_def field3_def field4_def)
qed

lemma last_dim4_field:
  assumes "concat (concat X) \<noteq> []" "\<And>c. c \<in> cells X \<Longrightarrow> length (Q c) = L"
  shows "last_dim4 (field4 Q X) = L"
proof -
  obtain c cs where c: "concat (concat X) = c # cs" using assms(1) by (cases "concat (concat X)") auto
  then have "c \<in> set (concat (concat X))" by simp
  then have "c \<in> cells X" by (auto simp: cells_def)
  then have l: "length (Q c) = L" by (rule assms(2))
  have "concat (concat (field4 Q X)) = map (\<lambda>c. map Fin (Q c)) (concat (concat X))"
    by (simp add: field4_def map_concat comp_def)
  then show ?thesis by (simp add: last_dim4_def c l)
qed

lemma dry_air_field:
  assumes "length A = Suc L" "length B = Suc L"
    and "\<And>c. c \<in> cells X \<Longrightarrow> length (Q c) = L"
    and "concat (concat X) \<noteq> []"
  shows "surface_pressure_due_to_dry_air (field4 Q X) (field3 P X) (fin1 A) (fin1 B)
      = Inr (field3 (\<lambda>x c. rdry A B (P x c) (Q c)) X)"
proof -
  have "ew3 (\<lambda>p w. fsub p (fmul (Fin GRAVITY) w)) (field3 P X)
          (field3 (\<lambda>x c. rtwp A B (P x c) (Q c)) X)
      = Inr (field3 (\<lambda>x c. rdry A B (P x c) (Q c)) X)"
    by (rule ew3_field) (simp add: rdry_def)
  then show ?thesis
    using assms(1,2)
    by (simp add: surface_pressure_due_to_dry_air_def Let_def fin1_def
        last_dim4_field[OF assms(4,3)] vertical_integral_field[OF assms(1,2,3), unfolded fin1_def])
qed


subsection \<open>Real algebra\<close>

lemma rsum2_sub: "rsum2 (map (map (\<lambda>c. f c - g c)) x) = rsum2 (map (map f) x) - rsum2 (map (map g) x)"
  by (induction x) (simp_all add: rsum2_def sum_list_subtractf)

lemma rsum2_scale: "rsum2 (map (map (\<lambda>c. k * g c)) x) = k * rsum2 (map (map g) x)"
  by (induction x) (simp_all add: rsum2_def sum_list_const_mult algebra_simps)

lemma gmean_sub_const:
  assumes "rsum2 (weights_of x) \<noteq> 0"
  shows "gmean (\<lambda>c. F c - e) x = gmean F x - e"
proof -
  have "rsum2 (map (map (\<lambda>c. (F c - e) * weight c)) x)
      = rsum2 (map (map (\<lambda>c. F c * weight c - e * weight c)) x)"
    by (simp add: algebra_simps)
  also have "\<dots> = rsum2 (map (map (\<lambda>c. F c * weight c)) x) - e * rsum2 (map (map weight) x)"
    by (simp only: rsum2_sub rsum2_scale)
  finally show ?thesis
    using assms by (simp add: gmean_def weights_of_def diff_divide_distrib)
qed

lemma gmean_scale: "gmean (\<lambda>c. F c * k) x = gmean F x * k"
proof -
  have "rsum2 (map (map (\<lambda>c. F c * k * weight c)) x)
      = rsum2 (map (map (\<lambda>c. k * (F c * weight c))) x)"
    by (simp add: algebra_simps)
  also have "\<dots> = k * rsum2 (map (map (\<lambda>c. F c * weight c)) x)"
    by (simp only: rsum2_scale)
  finally show ?thesis by (simp add: gmean_def)
qed

lemma gmean_sub: "gmean (\<lambda>c. F c - H c) x = gmean F x - gmean H x"
proof -
  have "rsum2 (map (map (\<lambda>c. (F c - H c) * weight c)) x)
      = rsum2 (map (map (\<lambda>c. F c * weight c - H c * weight c)) x)"
    by (simp add: algebra_simps)
  also have "\<dots> = rsum2 (map (map (\<lambda>c. F c * weight c)) x) - rsum2 (map (map (\<lambda>c. H c * weight c)) x)"
    by (simp only: rsum2_sub)
  finally show ?thesis by (simp add: gmean_def diff_divide_distrib)
qed

lemma rdiff_affine:
  "length A = length B \<Longrightarrow>
   rdiff (map2 (\<lambda>a b. a + p * b) A B) = map2 (\<lambda>da db. da + p * db) (rdiff A) (rdiff B)"
proof (induction A B rule: list_induct2)
  case Nil show ?case by (simp add: rdiff_def)
next
  case (Cons a A b B)
  show ?case
  proof (cases A)
    case Nil with Cons.hyps show ?thesis by (simp add: rdiff_def)
  next
    case (Cons a' A')
    with Cons.hyps obtain b' B' where B: "B = b' # B'" by (cases B) auto
    from Cons.IH show ?thesis
      by (simp add: rdiff_def Cons B algebra_simps)
  qed
qed

lemma rdot_affine:
  "length dA = length dB \<Longrightarrow> length dB = length q \<Longrightarrow>
   rdot (map2 (\<lambda>da db. da + p * db) dA dB) q = rdot dA q + p * rdot dB q"
  by (induction dA dB q rule: list_induct3) (simp_all add: rdot_def algebra_simps)

lemma rdry_linear:
  assumes "length A = Suc L" "length B = Suc L" "length q = L"
  shows "rdry A B p q = p * (1 - rdot (rdiff B) q) - rdot (rdiff A) q"
proof -
  have "rdot (rdiff (map2 (\<lambda>a b. a + p * b) A B)) q = rdot (rdiff A) q + p * rdot (rdiff B) q"
    using assms by (simp add: rdiff_affine rdot_affine length_rdiff)
  then show ?thesis
    by (simp add: rdry_def rtwp_def GRAVITY_nz algebra_simps)
qed

lemma rdry_rsolve:
  assumes "length A = Suc L" "length B = Suc L" "length q = L" "rdot (rdiff B) q \<noteq> 1"
  shows "rdry A B (rsolve A B d q) q = d"
  using assms(4) by (simp add: rdry_linear[OF assms(1,2,3)] rsolve_def)

lemma key_present: "map_of d k = Some v \<Longrightarrow> k \<in> set (keys d)"
  by (metis keys_def map_of_eq_None_iff option.distinct(1) set_map)

lemma keys_update_present: "k \<in> set (keys d) \<Longrightarrow> keys (AList.update k v d) = keys d"
  by (simp add: keys_def update_keys)

lemma alias_get_set:
  assumes "ClimateData_get (ClimateData_init d pf) name = Inr t"
  shows "\<exists>k ps. map_of pf name = Some ps \<and> k \<in> set ps \<and> k \<in> set (keys d)
      \<and> map_of d k = Some t
      \<and> ClimateData_set (ClimateData_init d pf) name v = Inr (ClimateData_init (AList.update k v d) pf)
      \<and> ClimateData_get (ClimateData_init (AList.update k v d) pf) name = Inr v"
proof -
  from assms obtain ps where ps: "map_of pf name = Some ps"
    by (auto simp: ClimateData_get_def ClimateData_init_def getitem_def split: option.splits)
  with assms obtain k where k: "find (\<lambda>prefix. prefix \<in> set (keys d)) ps = Some k"
    by (auto simp: ClimateData_get_def ClimateData_init_def getitem_def split: option.splits)
  then have kin: "k \<in> set ps" "k \<in> set (keys d)"
    by (auto simp: find_Some_iff)
  from assms ps k have t: "map_of d k = Some t"
    by (auto simp: ClimateData_get_def ClimateData_init_def getitem_def split: option.splits)
  have ks: "keys (AList.update k v d) = keys d"
    by (rule keys_update_present[OF kin(2)])
  show ?thesis
    using ps k kin t ks
    by (auto simp: ClimateData_set_def ClimateData_get_def ClimateData_init_def getitem_def
        update_conv')
qed

lemma alias_get_other:
  assumes "map_of pf name = Some ps" "k \<notin> set ps" "k \<in> set (keys d)"
  shows "ClimateData_get (ClimateData_init (AList.update k v d) pf) name
       = ClimateData_get (ClimateData_init d pf) name"
proof -
  have ks: "keys (AList.update k v d) = keys d"
    by (rule keys_update_present[OF assms(3)])
  show ?thesis
  proof (cases "find (\<lambda>prefix. prefix \<in> set (keys d)) ps")
    case None
    then show ?thesis
      by (simp add: ClimateData_get_def ClimateData_init_def getitem_def assms(1) ks)
  next
    case (Some k')
    then have "k' \<in> set ps" by (auto simp: find_Some_iff)
    with assms(2) have "k' \<noteq> k" by auto
    with Some show ?thesis
      by (simp add: ClimateData_get_def ClimateData_init_def getitem_def assms(1) ks update_conv')
  qed
qed

lemma set_insert_by_key: "set (insert_by_key x ys) = insert x (set ys)"
  by (induction ys) auto

lemma set_natural_sort: "set (natural_sort xs) = set xs"
  by (induction xs) (simp_all add: natural_sort_def set_insert_by_key)

lemma mapE_cong: "(\<And>x. x \<in> set xs \<Longrightarrow> f x = g x) \<Longrightarrow> mapE f xs = mapE g xs"
  by (induction xs) (simp_all split: sum.splits)

lemma extract_prefix_levels_update:
  assumes "k \<in> set (keys d)" "\<not> startswith k prefix"
  shows "extract_prefix_levels (ClimateData_init (AList.update k v d) pf) prefix
       = extract_prefix_levels (ClimateData_init d pf) prefix"
proof -
  have ks: "keys (AList.update k v d) = keys d"
    by (rule keys_update_present[OF assms(1)])
  have "mapE (getitem (AList.update k v d))
          (natural_sort (filter (\<lambda>field_name. startswith field_name prefix) (keys d)))
      = mapE (getitem d)
          (natural_sort (filter (\<lambda>field_name. startswith field_name prefix) (keys d)))"
  proof (rule mapE_cong)
    fix n assume "n \<in> set (natural_sort (filter (\<lambda>field_name. startswith field_name prefix) (keys d)))"
    then have "startswith n prefix" by (simp add: set_natural_sort)
    with assms(2) have "n \<noteq> k" by auto
    then show "getitem (AList.update k v d) n = getitem d n"
      by (simp add: getitem_def update_conv')
  qed
  then show ?thesis
    by (simp add: extract_prefix_levels_def ClimateData_init_def ks Let_def)
qed

lemma extract_levels_update:
  assumes "k \<in> set (keys d)" "\<forall>prefix \<in> set ps. \<not> startswith k prefix"
  shows "extract_levels (ClimateData_init (AList.update k v d) pf) name ps
       = extract_levels (ClimateData_init d pf) name ps"
  using assms(2)
  by (induction ps) (simp_all add: extract_prefix_levels_update[OF assms(1)] split: sum.splits error.splits)

lemma specific_total_water_update:
  assumes "k \<in> set (keys d)" "\<not> startswith k ''specific_total_water_''"
  shows "specific_total_water (ClimateData_init (AList.update k v d) CLIMATE_FIELD_NAME_PREFIXES)
       = specific_total_water (ClimateData_init d CLIMATE_FIELD_NAME_PREFIXES)"
proof -
  have p: "getitem CLIMATE_FIELD_NAME_PREFIXES ''specific_total_water'' = Inr [''specific_total_water_'']"
    by (simp add: CLIMATE_FIELD_NAME_PREFIXES_def getitem_def)
  show ?thesis
    using extract_levels_update[OF assms(1), of "[''specific_total_water_'']"] assms(2)
    by (simp add: specific_total_water_def ClimateData_init_def p)
qed

lemma surface_pressure_get_set:
  assumes "surface_pressure (ClimateData_init d CLIMATE_FIELD_NAME_PREFIXES) = Inr t"
  shows "\<exists>k. k \<in> {''PRESsfc'', ''PS''} \<and> k \<in> set (keys d) \<and> map_of d k = Some t
      \<and> set_surface_pressure (ClimateData_init d CLIMATE_FIELD_NAME_PREFIXES) v
          = Inr (ClimateData_init (AList.update k v d) CLIMATE_FIELD_NAME_PREFIXES)
      \<and> surface_pressure (ClimateData_init (AList.update k v d) CLIMATE_FIELD_NAME_PREFIXES) = Inr v"
  using alias_get_set[OF assms[unfolded surface_pressure_def], of v]
  by (auto simp: surface_pressure_def set_surface_pressure_def CLIMATE_FIELD_NAME_PREFIXES_def)

lemma cells_nonempty:
  assumes "X \<noteq> []" "\<forall>x \<in> set X. weights_of x = w" "rsum2 w \<noteq> 0"
  shows "concat (concat X) \<noteq> []"
proof -
  obtain x X' where X: "X = x # X'" using assms(1) by (cases X) auto
  then have wx: "weights_of x = w" using assms(2) by simp
  have "concat x \<noteq> []"
  proof
    assume "concat x = []"
    then have "\<forall>row \<in> set x. row = []" by simp
    then have "rsum2 (weights_of x) = 0"
      unfolding weights_of_def by (induction x) (simp_all add: rsum2_def)
    with wx assms(3) show False by simp
  qed
  then show ?thesis by (simp add: X)
qed

lemma data_init: "data (ClimateData_init d pf) = d"
  by (simp add: ClimateData_init_def)


lemma specific_total_water_update2:
  assumes "k \<in> set (keys d)" "\<not> startswith k ''specific_total_water_''"
    "specific_total_water (ClimateData_init d CLIMATE_FIELD_NAME_PREFIXES) = Inr t"
  shows "specific_total_water (ClimateData_init (AList.update k v d) CLIMATE_FIELD_NAME_PREFIXES) = Inr t"
  using specific_total_water_update[OF assms(1,2)] assms(3) by simp

lemma get_other:
  assumes "ClimateData_get (ClimateData_init d CLIMATE_FIELD_NAME_PREFIXES) name = Inr t"
    "map_of CLIMATE_FIELD_NAME_PREFIXES name = Some ps" "k \<notin> set ps" "k \<in> set (keys d)"
  shows "ClimateData_get (ClimateData_init (AList.update k v d) CLIMATE_FIELD_NAME_PREFIXES) name = Inr t"
  using alias_get_other[OF assms(2,3,4)] assms(1) by simp

lemma total_water_path_field:
  assumes "ak sigma = fin1 A" "bk sigma = fin1 B" "length A = Suc L" "length B = Suc L"
    and "\<And>c. c \<in> cells X \<Longrightarrow> length (Q c) = L"
    and "surface_pressure cd = Inr (field3 P X)" "specific_total_water cd = Inr (field4 Q X)"
  shows "total_water_path cd sigma = Inr (field3 (\<lambda>x c. rtwp A B (P x c) (Q c)) X)"
  using vertical_integral_field[where P = P and Q = Q, OF assms(3,4,5)]
  by (simp add: total_water_path_def assms(1,2,6,7))


text \<open>
  Claim C5. For a generated state whose advection tendency is a finite field and area
  weights that are non-negative with a positive sum, the stage succeeds; the
  area-weighted global mean of the advection tendency of the result, computed by the
  source's \<^verbatim>\<open>weighted_mean\<close>, is zero in every sample; the new field is the old
  one minus its global mean in every cell; and every other entry of the mapping, and
  the order of the keys, are unchanged.
\<close>

theorem zero_global_mean_advection:
  fixes X :: "sample list"
  assumes adv: "tendency_of_total_water_path_due_to_advection
                  (ClimateData_init gen_data CLIMATE_FIELD_NAME_PREFIXES)
                = Inr (field3 (\<lambda>x. gen_adv) X)"
    and area: "\<forall>x \<in> set X. weights_of x = w" "\<forall>c \<in> cells X. 0 \<le> weight c" "0 < rsum2 w"
  shows "\<exists>r. force_zero_global_mean_moisture_advection gen_data (fin2 w) = Inr r
     \<and> bindE (tendency_of_total_water_path_due_to_advection
                (ClimateData_init r CLIMATE_FIELD_NAME_PREFIXES))
          (\<lambda>t. weighted_mean t (fin2 w)) = Inr (map (\<lambda>x. Fin 0) X)
     \<and> tendency_of_total_water_path_due_to_advection
          (ClimateData_init r CLIMATE_FIELD_NAME_PREFIXES)
          = Inr (field3 (\<lambda>x c. gen_adv c - gmean gen_adv x) X)
     \<and> (\<forall>k. k \<noteq> ''tendency_of_total_water_path_due_to_advection''
             \<longrightarrow> map_of r k = map_of gen_data k)
     \<and> keys r = keys gen_data"
proof -
  let ?P = CLIMATE_FIELD_NAME_PREFIXES
  let ?K = "''tendency_of_total_water_path_due_to_advection''"
  have wx: "\<And>x. x \<in> set X \<Longrightarrow> weights_of x = w" using area(1) by blast
  have w0: "rsum2 w \<noteq> 0" using area(3) by simp
  have wm: "weighted_mean (field3 (\<lambda>x. gen_adv) X) (fin2 w) = Inr (map (\<lambda>x. Fin (gmean gen_adv x)) X)"
    by (rule weighted_mean_field[OF wx w0])
  have sb: "sub_bcast (field3 (\<lambda>x. gen_adv) X) (map (\<lambda>x. Fin (gmean gen_adv x)) X)
      = Inr (field3 (\<lambda>x c. gen_adv c - gmean gen_adv x) X)"
    by (rule sub_bcast_field)
  define na where "na = field3 (\<lambda>x c. gen_adv c - gmean gen_adv x) X"
  obtain k ps where kp: "map_of ?P ''tendency_of_total_water_path_due_to_advection'' = Some ps"
      "k \<in> set ps" "k \<in> set (keys gen_data)"
    and seta: "ClimateData_set (ClimateData_init gen_data ?P) ?K na
        = Inr (ClimateData_init (AList.update k na gen_data) ?P)"
    and geta: "ClimateData_get (ClimateData_init (AList.update k na gen_data) ?P) ?K = Inr na"
    using alias_get_set[OF adv[unfolded tendency_of_total_water_path_due_to_advection_def], of na]
    by blast
  have kv: "k = ?K" using kp(1,2) by (auto simp: CLIMATE_FIELD_NAME_PREFIXES_def)
  define r where "r = AList.update ?K na gen_data"
  have run: "force_zero_global_mean_moisture_advection gen_data (fin2 w) = Inr r"
    by (simp add: force_zero_global_mean_moisture_advection_def Let_def adv wm sb
        set_tendency_of_total_water_path_due_to_advection_def seta[unfolded na_def kv]
        r_def na_def data_init)
  have get: "tendency_of_total_water_path_due_to_advection (ClimateData_init r ?P) = Inr na"
    using geta by (simp add: tendency_of_total_water_path_due_to_advection_def r_def kv)
  have mr: "weighted_mean (field3 (\<lambda>x c. gen_adv c - gmean gen_adv x) X) (fin2 w)
      = Inr (map (\<lambda>x. Fin (gmean (\<lambda>c. gen_adv c - gmean gen_adv x) x)) X)"
    by (rule weighted_mean_field[OF wx w0])
  have "map (\<lambda>x. Fin (gmean (\<lambda>c. gen_adv c - gmean gen_adv x) x)) X = map (\<lambda>x. Fin 0) X"
  proof (rule map_cong[OF refl])
    fix x assume "x \<in> set X"
    then have "rsum2 (weights_of x) \<noteq> 0" using wx w0 by simp
    then show "Fin (gmean (\<lambda>c. gen_adv c - gmean gen_adv x) x) = Fin 0"
      by (simp add: gmean_sub_const)
  qed
  with mr have zero: "bindE (tendency_of_total_water_path_due_to_advection (ClimateData_init r ?P))
      (\<lambda>t. weighted_mean t (fin2 w)) = Inr (map (\<lambda>x. Fin 0) X)"
    by (simp add: get na_def)
  have frame: "\<forall>j. j \<noteq> ?K \<longrightarrow> map_of r j = map_of gen_data j"
    by (simp add: r_def update_conv')
  have ks: "keys r = keys gen_data"
    unfolding r_def using keys_update_present[OF kp(3)] kv by simp
  show ?thesis
    using run zero get[unfolded na_def] frame ks by (intro exI[of _ r]) simp
qed


lemma ex1: "surface_pressure (ClimateData_init example_input CLIMATE_FIELD_NAME_PREFIXES)
                = Inr (field3 (\<lambda>x. in_ps) example_cells)"
  by code_simp
lemma ex2: "specific_total_water (ClimateData_init example_input CLIMATE_FIELD_NAME_PREFIXES)
                = Inr (field4 in_wat example_cells)"
  by code_simp
lemma ex3: "surface_pressure (ClimateData_init example_gen CLIMATE_FIELD_NAME_PREFIXES)
                = Inr (field3 (\<lambda>x. gen_ps) example_cells)"
  by code_simp
lemma ex4: "specific_total_water (ClimateData_init example_gen CLIMATE_FIELD_NAME_PREFIXES)
                = Inr (field4 gen_wat example_cells)"
  by code_simp
lemma ex5: "\<forall>x \<in> set example_cells. weights_of x = example_area"
  by (simp add: example_cells_def weights_of_def example_area_def)
lemma ex6: "rsum2 example_area \<noteq> 0"
  by (simp add: example_area_def rsum2_def)
lemma ex_cells: "cells example_cells = {example_cells ! 0 ! 0 ! 0, example_cells ! 0 ! 0 ! 1}"
  by (auto simp: cells_def example_cells_def)
lemma ex7: "\<forall>c \<in> cells example_cells. length (gen_wat c) = 2 \<and> length (in_wat c) = 2"
  by (simp add: ex_cells) (simp add: example_cells_def)
lemma ex8: "\<forall>c \<in> cells example_cells. rdot (rdiff [1, 1/2, 0]) (gen_wat c) \<noteq> 1"
  by (simp add: ex_cells) (simp add: example_cells_def rdot_def rdiff_def)
lemma ex9: "\<forall>c \<in> cells example_cells. 0 \<le> weight c"
  by (simp add: ex_cells) (simp add: example_cells_def)
lemma ex10: "ClimateData_get (ClimateData_init example_gen CLIMATE_FIELD_NAME_PREFIXES)
                ''latent_heat_flux'' = Inr (field3 (\<lambda>x. gen_lhf) example_cells)"
  by code_simp
lemma ex11: "precipitation_rate (ClimateData_init example_gen CLIMATE_FIELD_NAME_PREFIXES)
                = Inr (field3 (\<lambda>x. gen_precip) example_cells)"
  by code_simp
lemma ex12: "\<forall>x \<in> set example_cells. gmean gen_precip x \<noteq> 0"
  by (simp add: example_cells_def gmean_def rsum2_def weights_of_def)




theorem zero_global_mean_advection_witness:
  "\<exists>r. force_zero_global_mean_moisture_advection example_gen (fin2 example_area) = Inr r
     \<and> bindE (tendency_of_total_water_path_due_to_advection
                (ClimateData_init r CLIMATE_FIELD_NAME_PREFIXES))
          (\<lambda>t. weighted_mean t (fin2 example_area)) = Inr [Fin 0]
     \<and> keys r = keys example_gen"
proof -
  have a: "tendency_of_total_water_path_due_to_advection
             (ClimateData_init example_gen CLIMATE_FIELD_NAME_PREFIXES)
           = Inr (field3 (\<lambda>x. gen_adv) example_cells)"
    by code_simp
  have d: "0 < rsum2 example_area"
    by (simp add: example_area_def rsum2_def)
  from zero_global_mean_advection[OF a ex5 ex9 d] obtain r where
    r: "force_zero_global_mean_moisture_advection example_gen (fin2 example_area) = Inr r"
    "bindE (tendency_of_total_water_path_due_to_advection
                (ClimateData_init r CLIMATE_FIELD_NAME_PREFIXES))
          (\<lambda>t. weighted_mean t (fin2 example_area)) = Inr (map (\<lambda>x. Fin 0) example_cells)"
    "keys r = keys example_gen"
    by blast
  have l: "map (\<lambda>x. Fin 0) example_cells = [Fin 0]" by (simp add: example_cells_def)
  show ?thesis
    by (intro exI[of _ r] conjI) (rule r(1), simp only: r(2) l, rule r(3))
qed



end
